theory Spec2Isabelle
  imports Complex_Main
begin

section \<open>Floating-point values\<close>

text \<open>
  The pipeline computes on pandas columns of IEEE doubles. A double is modelled as an exact
  real number, one of the two infinities, or the not-a-number value; rounding and the sign
  of zero are not modelled. The operations follow the IEEE rules for the special values:
  every comparison with NaN is false, NaN propagates through arithmetic, and a division
  by zero gives an infinity (NaN for 0/0).
\<close>

datatype fval = NaN | NInf | Fin real | PInf

fun flt :: "fval \<Rightarrow> fval \<Rightarrow> bool" where
  "flt NaN y = False"
| "flt x NaN = False"
| "flt NInf NInf = False"
| "flt NInf y = True"
| "flt x NInf = False"
| "flt PInf y = False"
| "flt (Fin a) (Fin b) = (a < b)"
| "flt (Fin a) PInf = True"

definition fgt :: "fval \<Rightarrow> fval \<Rightarrow> bool" where
  "fgt x y = flt y x"

definition fge :: "fval \<Rightarrow> fval \<Rightarrow> bool" where
  "fge x y = (x \<noteq> NaN \<and> y \<noteq> NaN \<and> \<not> flt x y)"

definition feq :: "fval \<Rightarrow> fval \<Rightarrow> bool" where
  "feq x y = (x \<noteq> NaN \<and> x = y)"

fun fneg :: "fval \<Rightarrow> fval" where
  "fneg NaN = NaN"
| "fneg NInf = PInf"
| "fneg (Fin a) = Fin (- a)"
| "fneg PInf = NInf"

fun fabs :: "fval \<Rightarrow> fval" where
  "fabs NaN = NaN"
| "fabs NInf = PInf"
| "fabs (Fin a) = Fin \<bar>a\<bar>"
| "fabs PInf = PInf"

fun fadd :: "fval \<Rightarrow> fval \<Rightarrow> fval" where
  "fadd NaN y = NaN"
| "fadd x NaN = NaN"
| "fadd (Fin a) (Fin b) = Fin (a + b)"
| "fadd (Fin a) y = y"
| "fadd x (Fin b) = x"
| "fadd PInf PInf = PInf"
| "fadd NInf NInf = NInf"
| "fadd PInf NInf = NaN"
| "fadd NInf PInf = NaN"

definition fsub :: "fval \<Rightarrow> fval \<Rightarrow> fval" where
  "fsub x y = fadd x (fneg y)"

text \<open>The sign of an infinite product or quotient: the infinity \<open>s\<close> if \<open>0 < a\<close>, its
  negation if \<open>a < 0\<close>, and NaN for \<open>a = 0\<close>.\<close>

definition signed_inf :: "real \<Rightarrow> fval \<Rightarrow> fval" where
  "signed_inf a s = (if a = 0 then NaN else if 0 < a then s else fneg s)"

fun fmul :: "fval \<Rightarrow> fval \<Rightarrow> fval" where
  "fmul NaN y = NaN"
| "fmul x NaN = NaN"
| "fmul (Fin a) (Fin b) = Fin (a * b)"
| "fmul (Fin a) y = signed_inf a y"
| "fmul x (Fin b) = signed_inf b x"
| "fmul PInf y = y"
| "fmul NInf y = fneg y"

fun fdiv :: "fval \<Rightarrow> fval \<Rightarrow> fval" where
  "fdiv NaN y = NaN"
| "fdiv x NaN = NaN"
| "fdiv (Fin a) (Fin b) = (if b = 0 then signed_inf a PInf else Fin (a / b))"
| "fdiv (Fin a) y = Fin 0"
| "fdiv x (Fin b) = (if b < 0 then fneg x else x)"
| "fdiv x y = NaN"

fun is_fin :: "fval \<Rightarrow> bool" where
  "is_fin (Fin a) = True"
| "is_fin x = False"

fun fsqrt :: "fval \<Rightarrow> fval" where
  "fsqrt NaN = NaN"
| "fsqrt NInf = NaN"
| "fsqrt (Fin a) = (if a < 0 then NaN else Fin (sqrt a))"
| "fsqrt PInf = PInf"

subsection \<open>Column reductions of pandas\<close>

text \<open>
  The reductions of a pandas column skip NaN entries (\<open>skipna=True\<close>, the default):
  \<open>mean\<close> and \<open>std\<close> (sample standard deviation, \<open>ddof=1\<close>, NaN for fewer than two
  values), \<open>min\<close> and \<open>max\<close>, and \<open>idxmin\<close>/\<open>idxmax\<close>, which give the first position
  of the extreme value and raise on a column with no value. A column is a list, and a
  timestamp is the position of its row in the strictly increasing index.
\<close>

datatype py_error = ValueError string | ZeroDivisionError | KeyError | OtherError

definition nanvals :: "fval list \<Rightarrow> fval list" where
  "nanvals xs = filter (\<lambda>x. x \<noteq> NaN) xs"

definition fsum :: "fval list \<Rightarrow> fval" where
  "fsum xs = fold (\<lambda>x acc. fadd acc x) xs (Fin 0)"

definition mean_skipna :: "fval list \<Rightarrow> fval" where
  "mean_skipna xs =
    (let vs = nanvals xs in
     if vs = [] then NaN else fdiv (fsum vs) (Fin (real (length vs))))"

definition std_skipna :: "fval list \<Rightarrow> fval" where
  "std_skipna xs =
    (let vs = nanvals xs; n = length vs in
     if n \<le> 1 then NaN
     else (let avg = fdiv (fsum vs) (Fin (real n));
               sqr = map (\<lambda>v. fmul (fsub avg v) (fsub avg v)) vs
           in fsqrt (fdiv (fsum sqr) (Fin (real (n - 1))))))"

text \<open>
  The metrics and the pair records compare rounded results with constants (a standard
  deviation with 0, a drawdown with the other drawdowns), so the double-precision
  operations they use are parameters there: subtraction, multiplication, division and square
  root of numpy, and \<open>mean\<close> and \<open>std\<close> of a pandas column. Comparisons do not round.
  \<open>exact_lib\<close> is these operations in the exact arithmetic above; it gives the results of
  the doubles wherever every intermediate result is a double (small dyadic numbers).
\<close>

record float_lib =
  f_sub :: "fval \<Rightarrow> fval \<Rightarrow> fval"
  f_mul :: "fval \<Rightarrow> fval \<Rightarrow> fval"
  f_div :: "fval \<Rightarrow> fval \<Rightarrow> fval"
  f_sqrt :: "fval \<Rightarrow> fval"
  s_mean :: "fval list \<Rightarrow> fval"
  s_std :: "fval list \<Rightarrow> fval"

definition exact_lib :: float_lib where
  "exact_lib = \<lparr>f_sub = fsub, f_mul = fmul, f_div = fdiv, f_sqrt = fsqrt,
                 s_mean = mean_skipna, s_std = std_skipna\<rparr>"

definition fmin :: "fval \<Rightarrow> fval \<Rightarrow> fval" where
  "fmin x y = (if flt y x then y else x)"

definition fmax :: "fval \<Rightarrow> fval \<Rightarrow> fval" where
  "fmax x y = (if flt x y then y else x)"

definition nanmin :: "fval list \<Rightarrow> fval" where
  "nanmin xs = (case nanvals xs of [] \<Rightarrow> NaN | v # vs \<Rightarrow> fold (\<lambda>x m. fmin m x) vs v)"

definition nanmax :: "fval list \<Rightarrow> fval" where
  "nanmax xs = (case nanvals xs of [] \<Rightarrow> NaN | v # vs \<Rightarrow> fold (\<lambda>x m. fmax m x) vs v)"

definition first_index :: "('a \<Rightarrow> bool) \<Rightarrow> 'a list \<Rightarrow> nat" where
  "first_index P xs = length (takeWhile (\<lambda>x. \<not> P x) xs)"

definition idxmin :: "fval list \<Rightarrow> py_error + nat" where
  "idxmin xs =
    (if xs = [] then Inl (ValueError ''attempt to get argmin of an empty sequence'')
     else if nanvals xs = [] then Inl (ValueError ''Encountered all NA values'')
     else Inr (first_index (\<lambda>x. x = nanmin xs) xs))"

definition idxmax :: "fval list \<Rightarrow> py_error + nat" where
  "idxmax xs =
    (if xs = [] then Inl (ValueError ''attempt to get argmax of an empty sequence'')
     else if nanvals xs = [] then Inl (ValueError ''Encountered all NA values'')
     else Inr (first_index (\<lambda>x. x = nanmax xs) xs))"

text \<open>
  \<open>expanding().max()\<close>: at each row the maximum of the values up to and including it. The
  window functions of pandas take an infinite entry for a missing one.
\<close>

definition inf_as_missing :: "fval \<Rightarrow> fval" where
  "inf_as_missing x = (if is_fin x then x else NaN)"

definition expanding_max :: "fval list \<Rightarrow> fval list" where
  "expanding_max xs =
     map (\<lambda>t. nanmax (map inf_as_missing (take (Suc t) xs))) [0..<length xs]"

text \<open>\<open>cumprod()\<close>: the running product; a NaN entry stays NaN in the result and is left
  out of the product.\<close>

fun cumprod_from :: "fval \<Rightarrow> fval list \<Rightarrow> fval list" where
  "cumprod_from acc [] = []"
| "cumprod_from acc (x # xs) =
    (if x = NaN then NaN # cumprod_from acc xs
     else (let acc' = fmul acc x in acc' # cumprod_from acc' xs))"

definition cumprod :: "fval list \<Rightarrow> fval list" where
  "cumprod xs = cumprod_from (Fin 1) xs"

text \<open>\<open>diff()\<close> of an integer column: NaN in the first row, then the difference to the
  previous row.\<close>

definition diff :: "int list \<Rightarrow> fval list" where
  "diff xs = map (\<lambda>t. if t = 0 then NaN else Fin (real_of_int (xs ! t - xs ! (t - 1))))
                 [0..<length xs]"

text \<open>\<open>pct_change()\<close> of a price column: NaN in the first row, then
  \<open>p[t] / p[t-1] - 1\<close>. A price column holds finite numbers (rows with a missing value
  are dropped before the pipeline runs).\<close>

definition pct_change :: "real list \<Rightarrow> fval list" where
  "pct_change p = map (\<lambda>t. if t = 0 then NaN
                             else fsub (fdiv (Fin (p ! t)) (Fin (p ! (t - 1)))) (Fin 1))
                      [0..<length p]"

text \<open>Assigning a column to a table aligns it to the table's index: a row of the table
  that the column does not have gets NaN. The tables of the pipeline share one index
  starting at the same timestamp; \<open>n\<close> is the number of rows of the table.\<close>

definition reindex :: "nat \<Rightarrow> fval list \<Rightarrow> fval list" where
  "reindex n xs = map (\<lambda>t. if t < length xs then xs ! t else NaN) [0..<n]"

section \<open>Signal generation (signal_generator.py)\<close>

record signal_generator =
  entry_threshold :: fval
  exit_threshold :: fval
  stop_loss :: fval

text \<open>One row of the \<open>signals\<close> table. The \<open>spread\<close> column is carried along unchanged
  and is left out; \<open>zscore\<close> is the column computed by \<open>calculate_zscore\<close>.\<close>

record signal_row =
  zscore :: fval
  position :: int
  entry_signal :: int
  exit_signal :: int

text \<open>The three signal columns are initialised to 0 before the loop.\<close>

definition init_row :: "fval \<Rightarrow> signal_row" where
  "init_row z = \<lparr>zscore = z, position = 0, entry_signal = 0, exit_signal = 0\<rparr>"

text \<open>
  One iteration of the loop of \<open>generate_signals\<close>: from \<open>current_position\<close> and row \<open>i\<close> to
  the new \<open>current_position\<close> and the row as written. The local \<open>entry_zscore\<close> is assigned
  but never read and is left out.
\<close>

definition signal_step :: "signal_generator \<Rightarrow> int \<Rightarrow> signal_row \<Rightarrow> int \<times> signal_row" where
  "signal_step sg current_position row =
    (let z = zscore row in
     if current_position = 0 then
       (if flt z (fneg (entry_threshold sg)) then
          (1, row\<lparr>entry_signal := 1, position := 1\<rparr>)
        else if fgt z (entry_threshold sg) then
          (- 1, row\<lparr>entry_signal := - 1, position := - 1\<rparr>)
        else (current_position, row))
     else if current_position = 1 then
       (if flt z (fneg (stop_loss sg)) then
          (0, row\<lparr>exit_signal := 1, position := 0\<rparr>)
        else if fgt z (fneg (exit_threshold sg)) then
          (0, row\<lparr>exit_signal := 1, position := 0\<rparr>)
        else (current_position, row\<lparr>position := 1\<rparr>))
     else if current_position = - 1 then
       (if fgt z (stop_loss sg) then
          (0, row\<lparr>exit_signal := 1, position := 0\<rparr>)
        else if flt z (exit_threshold sg) then
          (0, row\<lparr>exit_signal := 1, position := 0\<rparr>)
        else (current_position, row\<lparr>position := - 1\<rparr>))
     else (current_position, row))"

fun signal_loop :: "signal_generator \<Rightarrow> int \<Rightarrow> signal_row list \<Rightarrow> signal_row list" where
  "signal_loop sg current_position [] = []"
| "signal_loop sg current_position (row # rows) =
    (case signal_step sg current_position row of
       (current_position', row') \<Rightarrow> row' # signal_loop sg current_position' rows)"

definition generate_signals :: "signal_generator \<Rightarrow> fval list \<Rightarrow> signal_row list" where
  "generate_signals sg zs = signal_loop sg 0 (map init_row zs)"

text \<open>The position in force when row \<open>t\<close> is computed: \<open>p0\<close> before the first row.\<close>

definition prev_position :: "int \<Rightarrow> signal_row list \<Rightarrow> nat \<Rightarrow> int" where
  "prev_position p0 rows t = (if t = 0 then p0 else position (rows ! (t - 1)))"

subsection \<open>The state machine as the specification words it\<close>

datatype sstate = Flat | Long | Short

fun pos_of :: "sstate \<Rightarrow> int" where
  "pos_of Flat = 0"
| "pos_of Long = 1"
| "pos_of Short = - 1"

fun spec_next :: "signal_generator \<Rightarrow> sstate \<Rightarrow> fval \<Rightarrow> sstate" where
  "spec_next sg Flat z =
    (if flt z (fneg (entry_threshold sg)) then Long
     else if fgt z (entry_threshold sg) then Short
     else Flat)"
| "spec_next sg Long z =
    (if flt z (fneg (stop_loss sg)) \<or> fgt z (fneg (exit_threshold sg)) then Flat else Long)"
| "spec_next sg Short z =
    (if fgt z (stop_loss sg) \<or> flt z (exit_threshold sg) then Flat else Short)"

fun spec_trace :: "signal_generator \<Rightarrow> sstate \<Rightarrow> fval list \<Rightarrow> sstate list" where
  "spec_trace sg s [] = []"
| "spec_trace sg s (z # zs) = (let s' = spec_next sg s z in s' # spec_trace sg s' zs)"

section \<open>Backtesting (backtester.py)\<close>

record backtester =
  initial_capital :: fval
  transaction_cost :: fval
  slippage :: fval

text \<open>The table returned by \<open>calculate_returns\<close>: the copied signals and the added columns.
  The column \<open>slippage\<close> is named \<open>slippage_col\<close>, the name being taken by the backtester's
  field.\<close>

record results =
  signals :: "signal_row list"
  symbol1_returns :: "fval list"
  symbol2_returns :: "fval list"
  position_change :: "fval list"
  strategy_return :: "fval list"
  transaction_costs :: "fval list"
  slippage_col :: "fval list"
  net_return :: "fval list"
  cumulative_return :: "fval list"
  portfolio_value :: "fval list"

text \<open>One iteration of the loop over \<open>range(1, len(results))\<close>.\<close>

definition strategy_return_step ::
  "int list \<Rightarrow> fval list \<Rightarrow> fval list \<Rightarrow> nat \<Rightarrow> fval list \<Rightarrow> fval list" where
  "strategy_return_step pos r1 r2 i sr =
    (let prev_pos = pos ! (i - 1) in
     if prev_pos = 0 then sr[i := Fin 0]
     else (let spread_return =
                 (if prev_pos = 1 then fsub (r2 ! i) (r1 ! i) else fsub (r1 ! i) (r2 ! i))
           in sr[i := spread_return]))"

text \<open>The value the loop writes into row \<open>i\<close>.\<close>

definition strategy_return_at :: "int list \<Rightarrow> fval list \<Rightarrow> fval list \<Rightarrow> nat \<Rightarrow> fval" where
  "strategy_return_at pos r1 r2 i =
     (if pos ! (i - 1) = 0 then Fin 0
      else if pos ! (i - 1) = 1 then fsub (r2 ! i) (r1 ! i) else fsub (r1 ! i) (r2 ! i))"

definition calculate_returns ::
  "backtester \<Rightarrow> signal_row list \<Rightarrow> real list \<Rightarrow> real list \<Rightarrow> results" where
  "calculate_returns bt sigs prices1 prices2 =
    (let n = length sigs;
         pos = map position sigs;
         r1 = reindex n (pct_change prices1);
         r2 = reindex n (pct_change prices2);
         pc = map fabs (diff pos);
         sr = fold (strategy_return_step pos r1 r2) [1..<n] (replicate n (Fin 0));
         tc = map (\<lambda>c. fmul c (transaction_cost bt)) pc;
         sl = map (\<lambda>c. fmul c (slippage bt)) pc;
         net = map2 fsub (map2 fsub sr tc) sl;
         cum = map (\<lambda>x. fsub x (Fin 1)) (cumprod (map (\<lambda>x. fadd (Fin 1) x) net));
         pv = map (\<lambda>c. fmul (initial_capital bt) (fadd (Fin 1) c)) cum
     in \<lparr>signals = sigs, symbol1_returns = r1, symbol2_returns = r2, position_change = pc,
         strategy_return = sr, transaction_costs = tc, slippage_col = sl, net_return = net,
         cumulative_return = cum, portfolio_value = pv\<rparr>)"

text \<open>The single-period simple percentage price change, as the specification words it.\<close>

definition simple_return :: "real list \<Rightarrow> nat \<Rightarrow> fval" where
  "simple_return p t = fsub (fdiv (Fin (p ! t)) (Fin (p ! (t - 1)))) (Fin 1)"

text \<open>The compounded product of \<open>1 + x\<close> over the rows \<open>1, ..., t\<close> of a column.\<close>

definition compound :: "fval list \<Rightarrow> nat \<Rightarrow> fval" where
  "compound xs t = fold (\<lambda>k acc. fmul acc (fadd (Fin 1) (xs ! k))) [1..<Suc t] (Fin 1)"

text \<open>The input contract of a price column: every price is positive.\<close>

definition positive_prices :: "real list \<Rightarrow> bool" where
  "positive_prices p = list_all (\<lambda>x. 0 < x) p"

section \<open>Performance metrics (performance.py)\<close>

text \<open>
  \<open>calculate_sortino_ratio\<close>. The risk-free rate is a finite number and the number of periods
  an integer; the Python division \<open>risk_free_rate / periods_per_year\<close> raises for 0.
\<close>

definition calculate_sortino_ratio ::
  "float_lib \<Rightarrow> fval list \<Rightarrow> real \<Rightarrow> int \<Rightarrow> py_error + fval" where
  "calculate_sortino_ratio lib returns risk_free_rate periods_per_year =
    (if length returns = 0 then Inr (Fin 0)
     else if periods_per_year = 0 then Inl ZeroDivisionError
     else
       (let excess_returns =
              map (\<lambda>r. f_sub lib r
                         (f_div lib (Fin risk_free_rate) (Fin (real_of_int periods_per_year))))
                returns;
            downside_returns = filter (\<lambda>x. flt x (Fin 0)) excess_returns
        in if length downside_returns = 0 \<or> feq (s_std lib downside_returns) (Fin 0)
           then Inr (if fgt (s_mean lib excess_returns) (Fin 0) then PInf else Fin 0)
           else Inr (f_div lib
                       (f_mul lib (f_sqrt lib (Fin (real_of_int periods_per_year)))
                                  (s_mean lib excess_returns))
                       (s_std lib downside_returns))))"

text \<open>The excess returns and the words of the specification about them.\<close>

definition excess :: "float_lib \<Rightarrow> fval list \<Rightarrow> real \<Rightarrow> int \<Rightarrow> fval list" where
  "excess lib returns risk_free_rate periods_per_year =
     map (\<lambda>r. f_sub lib r
                (f_div lib (Fin risk_free_rate) (Fin (real_of_int periods_per_year))))
       returns"

definition negative_part :: "fval list \<Rightarrow> fval list" where
  "negative_part xs = filter (\<lambda>x. flt x (Fin 0)) xs"

definition no_negative :: "fval list \<Rightarrow> bool" where
  "no_negative xs = (\<forall>x\<in>set xs. \<not> flt x (Fin 0))"

definition sortino_sentinel :: "float_lib \<Rightarrow> fval list \<Rightarrow> fval" where
  "sortino_sentinel lib xs = (if fgt (s_mean lib xs) (Fin 0) then PInf else Fin 0)"

definition sortino_formula :: "float_lib \<Rightarrow> fval list \<Rightarrow> int \<Rightarrow> fval" where
  "sortino_formula lib xs periods_per_year =
     f_div lib (f_mul lib (f_sqrt lib (Fin (real_of_int periods_per_year))) (s_mean lib xs))
               (s_std lib (negative_part xs))"

text \<open>
  \<open>calculate_max_drawdown\<close>. A slice of the column by an index label depends on the index:
  with timestamps as labels, as in the table of the backtest, \<open>portfolio_value[:label]\<close>
  includes the row of the label; with the default integer index (0, 1, 2, ...) the slice is
  by position and ends before it. \<open>portfolio_value[label:]\<close> starts at the row of the label
  in both. On a column with no defined drawdown \<open>idxmin\<close> raises.
\<close>

datatype index_kind = Timestamps | RangeIndex

definition slice_to :: "index_kind \<Rightarrow> nat \<Rightarrow> 'a list \<Rightarrow> 'a list" where
  "slice_to idx k xs = (case idx of Timestamps \<Rightarrow> take (Suc k) xs | RangeIndex \<Rightarrow> take k xs)"

record drawdown_info =
  max_drawdown :: fval
  peak_date :: nat
  trough_date :: nat
  recovery_date :: "nat option"
  peak_value :: fval
  trough_value :: fval

definition calculate_max_drawdown ::
  "float_lib \<Rightarrow> index_kind \<Rightarrow> fval list \<Rightarrow> py_error + drawdown_info" where
  "calculate_max_drawdown lib idx pv =
    (let running_max = expanding_max pv;
         drawdown = map2 (\<lambda>v m. f_div lib (f_sub lib v m) m) pv running_max;
         max_dd = nanmin drawdown
     in case idxmin drawdown of
          Inl e \<Rightarrow> Inl e
        | Inr max_drawdown_idx \<Rightarrow>
           (let max_drawdown_pos = max_drawdown_idx in
            case idxmax (slice_to idx max_drawdown_idx pv) of
              Inl e \<Rightarrow> Inl e
            | Inr peak_idx \<Rightarrow>
               (let peak_val = pv ! peak_idx;
                    recovery_idx =
                      (if int max_drawdown_pos < int (length pv) - 1 then
                         (let recovery_series = drop max_drawdown_idx pv in
                          if list_ex (\<lambda>v. fge v peak_val) recovery_series
                          then Some (max_drawdown_idx +
                                     first_index (\<lambda>v. fge v peak_val) recovery_series)
                          else None)
                       else None)
                in Inr \<lparr>max_drawdown = max_dd, peak_date = peak_idx,
                        trough_date = max_drawdown_idx, recovery_date = recovery_idx,
                        peak_value = peak_val, trough_value = pv ! max_drawdown_idx\<rparr>)))"

text \<open>The column \<open>drawdown\<close> computed by \<open>calculate_max_drawdown\<close>.\<close>

definition drawdown_col :: "float_lib \<Rightarrow> fval list \<Rightarrow> fval list" where
  "drawdown_col lib pv = map2 (\<lambda>v m. f_div lib (f_sub lib v m) m) pv (expanding_max pv)"

text \<open>The drawdown of row \<open>t\<close> in the words of the specification:
  \<open>(value[t] - running_max[t]) / running_max[t]\<close>, with the running maximum of the values up
  to and including row \<open>t\<close>.\<close>

definition drawdown_at :: "float_lib \<Rightarrow> fval list \<Rightarrow> nat \<Rightarrow> fval" where
  "drawdown_at lib pv t =
     f_div lib (f_sub lib (pv ! t) (nanmax (take (Suc t) pv))) (nanmax (take (Suc t) pv))"

text \<open>A column of finite values, some of which may be missing.\<close>

definition finite_or_missing :: "fval list \<Rightarrow> bool" where
  "finite_or_missing pv = list_all (\<lambda>x. x = NaN \<or> is_fin x) pv"

text \<open>
  What the theorem on the drawdown uses of the rounded operations, and what the doubles
  satisfy: the drawdown of a missing value is NaN, and the drawdown of a value that is its
  own running maximum is not negative (\<open>v - v\<close> is zero or NaN).
\<close>

definition drawdown_ops :: "float_lib \<Rightarrow> bool" where
  "drawdown_ops lib =
    ((\<forall>m. f_div lib (f_sub lib NaN m) m = NaN) \<and>
     (\<forall>v. \<not> flt (f_div lib (f_sub lib v v) v) (Fin 0)))"

text \<open>
  The recovery date \<open>rec\<close> for trough \<open>tr\<close> and peak \<open>pk\<close>: if there is one, the trough is
  not the last row and \<open>rec\<close> is the first row at or after the trough whose value is at
  least the peak value; if there is none, the trough is the last row or no row at or after
  the trough reaches the peak value.
\<close>

definition recovery_ok :: "fval list \<Rightarrow> nat \<Rightarrow> nat \<Rightarrow> nat option \<Rightarrow> bool" where
  "recovery_ok pv tr pk rec =
    (case rec of
       None \<Rightarrow> Suc tr = length pv \<or>
               (\<forall>t. tr \<le> t \<and> t < length pv \<longrightarrow> \<not> fge (pv ! t) (pv ! pk))
     | Some r \<Rightarrow> Suc tr < length pv \<and> tr \<le> r \<and> r < length pv \<and> fge (pv ! r) (pv ! pk) \<and>
               (\<forall>t. tr \<le> t \<and> t < r \<longrightarrow> \<not> fge (pv ! t) (pv ! pk)))"

section \<open>Properties of the signal state machine\<close>

lemma flt_NaN_right [simp]: "flt x NaN = False"
  by (cases x) simp_all

lemma flt_irrefl [simp]: "\<not> flt x x"
  by (cases x) simp_all

lemma signal_step_spec:
  "signal_step sg (pos_of s) (init_row z) =
    (pos_of (spec_next sg s z),
     \<lparr>zscore = z, position = pos_of (spec_next sg s z),
      entry_signal = (if s = Flat then pos_of (spec_next sg s z) else 0),
      exit_signal = (if s \<noteq> Flat \<and> spec_next sg s z = Flat then 1 else 0)\<rparr>)"
  by (cases s) (simp_all add: signal_step_def init_row_def Let_def)

lemma signal_loop_spec:
  "map position (signal_loop sg (pos_of s) (map init_row zs)) = map pos_of (spec_trace sg s zs)"
  by (induction zs arbitrary: s) (simp_all add: signal_step_spec Let_def)

lemma spec_next_NaN: "spec_next sg s NaN = s"
  by (cases s) (simp_all add: fgt_def)

lemma pos_of_eq_0 [simp]: "(pos_of s = 0) = (s = Flat)"
  by (cases s) simp_all

lemma pos_of_inj [simp]: "(pos_of s = pos_of s') = (s = s')"
  by (cases s; cases s') simp_all

lemma signal_loop_row:
  "t < length zs \<Longrightarrow>
   \<exists>s'. prev_position (pos_of s) (signal_loop sg (pos_of s) (map init_row zs)) t = pos_of s' \<and>
     signal_loop sg (pos_of s) (map init_row zs) ! t = snd (signal_step sg (pos_of s') (init_row (zs ! t)))"
proof (induction zs arbitrary: s t)
  case Nil
  then show ?case by simp
next
  case (Cons z zs)
  show ?case
  proof (cases t)
    case 0
    then show ?thesis
      by (auto simp: prev_position_def signal_step_spec intro!: exI [of _ s])
  next
    case (Suc k)
    with Cons.prems have k: "k < length zs" by simp
    from Cons.IH [OF k, of "spec_next sg s z"] obtain s' where
      s': "prev_position (pos_of (spec_next sg s z))
             (signal_loop sg (pos_of (spec_next sg s z)) (map init_row zs)) k = pos_of s'"
          "signal_loop sg (pos_of (spec_next sg s z)) (map init_row zs) ! k =
             snd (signal_step sg (pos_of s') (init_row (zs ! k)))"
      by blast
    show ?thesis
      using s' Suc by (cases k) (auto simp: prev_position_def signal_step_spec intro!: exI [of _ s'])
  qed
qed

text \<open>
  \<^bold>\<open>C1.\<close> Run in timestamp order from Flat, the loop of \<open>generate_signals\<close> records exactly
  the positions of the state machine of the specification: Flat to Long when
  \<open>z < -entry_threshold\<close>, Flat to Short when \<open>z > entry_threshold\<close>, Long to Flat when
  \<open>z < -stop_loss\<close> or \<open>z > -exit_threshold\<close>, Short to Flat when \<open>z > stop_loss\<close> or
  \<open>z < exit_threshold\<close>, and no change otherwise. Each iteration moves the current position
  and the recorded position as \<open>spec_next\<close> does; a NaN z-score changes neither and sets no
  signal; and at a z-score equal to a threshold the rule of that threshold does not fire
  (the state stays, unless the other rule of the state fires), all comparisons being
  strict. Where both entry rules hold (a negative entry threshold) the code takes the long
  one, the first in the specification's list.
\<close>

theorem C1_state_machine:
  "map position (generate_signals sg zs) = map pos_of (spec_trace sg Flat zs) \<and>
   (\<forall>s z. fst (signal_step sg (pos_of s) (init_row z)) = pos_of (spec_next sg s z) \<and>
          position (snd (signal_step sg (pos_of s) (init_row z))) = pos_of (spec_next sg s z)) \<and>
   (\<forall>s. signal_step sg (pos_of s) (init_row NaN) = (pos_of s, (init_row NaN)\<lparr>position := pos_of s\<rparr>)) \<and>
   fst (signal_step sg 0 (init_row (fneg (entry_threshold sg)))) \<noteq> 1 \<and>
   fst (signal_step sg 0 (init_row (entry_threshold sg))) \<noteq> - 1 \<and>
   (\<not> fgt (fneg (stop_loss sg)) (fneg (exit_threshold sg)) \<longrightarrow>
      fst (signal_step sg 1 (init_row (fneg (stop_loss sg)))) = 1) \<and>
   (\<not> flt (fneg (exit_threshold sg)) (fneg (stop_loss sg)) \<longrightarrow>
      fst (signal_step sg 1 (init_row (fneg (exit_threshold sg)))) = 1) \<and>
   (\<not> flt (stop_loss sg) (exit_threshold sg) \<longrightarrow>
      fst (signal_step sg (- 1) (init_row (stop_loss sg))) = - 1) \<and>
   (\<not> fgt (exit_threshold sg) (stop_loss sg) \<longrightarrow>
      fst (signal_step sg (- 1) (init_row (exit_threshold sg))) = - 1)"
proof -
  have a: "map position (generate_signals sg zs) = map pos_of (spec_trace sg Flat zs)"
    using signal_loop_spec [of sg Flat zs] by (simp add: generate_signals_def)
  have b: "\<forall>s z. fst (signal_step sg (pos_of s) (init_row z)) = pos_of (spec_next sg s z) \<and>
          position (snd (signal_step sg (pos_of s) (init_row z))) = pos_of (spec_next sg s z)"
    by (simp add: signal_step_spec)
  have c: "\<forall>s. signal_step sg (pos_of s) (init_row NaN) = (pos_of s, (init_row NaN)\<lparr>position := pos_of s\<rparr>)"
    using signal_step_spec [of sg _ NaN] by (simp add: spec_next_NaN init_row_def)
  have d: "fst (signal_step sg 0 (init_row (fneg (entry_threshold sg)))) \<noteq> 1"
    by (simp add: signal_step_def init_row_def fgt_def Let_def)
  have e: "fst (signal_step sg 0 (init_row (entry_threshold sg))) \<noteq> - 1"
    by (simp add: signal_step_def init_row_def fgt_def Let_def)
  have f: "\<not> fgt (fneg (stop_loss sg)) (fneg (exit_threshold sg)) \<longrightarrow>
      fst (signal_step sg 1 (init_row (fneg (stop_loss sg)))) = 1"
    by (simp add: signal_step_def init_row_def Let_def)
  have g: "\<not> flt (fneg (exit_threshold sg)) (fneg (stop_loss sg)) \<longrightarrow>
      fst (signal_step sg 1 (init_row (fneg (exit_threshold sg)))) = 1"
    by (simp add: signal_step_def init_row_def fgt_def Let_def)
  have h: "\<not> flt (stop_loss sg) (exit_threshold sg) \<longrightarrow>
      fst (signal_step sg (- 1) (init_row (stop_loss sg))) = - 1"
    by (simp add: signal_step_def init_row_def fgt_def Let_def)
  have i: "\<not> fgt (exit_threshold sg) (stop_loss sg) \<longrightarrow>
      fst (signal_step sg (- 1) (init_row (exit_threshold sg))) = - 1"
    by (simp add: signal_step_def init_row_def Let_def)
  from a b c d e f g h i show ?thesis by blast
qed

theorem C1_state_machine_witness:
  "map position (generate_signals \<lparr>entry_threshold = Fin 2, exit_threshold = Fin (1/2), stop_loss = Fin 3\<rparr>
      [NaN, Fin (- 2), Fin (- 5/2), Fin (- 1), Fin (- 3), Fin (- 1/2), Fin (- 2/5),
       Fin 2, Fin 3, Fin 3, Fin 4])
     = [0, 0, 1, 1, 1, 1, 0, 0, - 1, - 1, 0] \<and>
   \<not> fgt (fneg (Fin 3)) (fneg (Fin (1/2))) \<and>
   fst (signal_step \<lparr>entry_threshold = Fin 2, exit_threshold = Fin (1/2), stop_loss = Fin 3\<rparr> 1
          (init_row (fneg (Fin 3)))) = 1 \<and>
   \<not> flt (fneg (Fin (1/2))) (fneg (Fin 3)) \<and>
   fst (signal_step \<lparr>entry_threshold = Fin 2, exit_threshold = Fin (1/2), stop_loss = Fin 3\<rparr> 1
          (init_row (fneg (Fin (1/2))))) = 1 \<and>
   \<not> flt (Fin 3) (Fin (1/2)) \<and>
   fst (signal_step \<lparr>entry_threshold = Fin 2, exit_threshold = Fin (1/2), stop_loss = Fin 3\<rparr> (- 1)
          (init_row (Fin 3))) = - 1 \<and>
   \<not> fgt (Fin (1/2)) (Fin 3) \<and>
   fst (signal_step \<lparr>entry_threshold = Fin 2, exit_threshold = Fin (1/2), stop_loss = Fin 3\<rparr> (- 1)
          (init_row (Fin (1/2)))) = - 1"
  using C1_state_machine [of "\<lparr>entry_threshold = Fin 2, exit_threshold = Fin (1/2), stop_loss = Fin 3\<rparr>"
      "[NaN, Fin (- 2), Fin (- 5/2), Fin (- 1), Fin (- 3), Fin (- 1/2), Fin (- 2/5),
       Fin 2, Fin 3, Fin 3, Fin 4]"]
  by (simp add: fgt_def)

text \<open>
  \<^bold>\<open>C2.\<close> In every table produced by \<open>generate_signals\<close>: a row with a nonzero entry signal
  has a nonzero position and the row before it (if there is one) has position 0; a row with
  exit signal 1 has position 0, is not the first row, and the row before it has a nonzero
  position; and no row has both signals nonzero.
\<close>

theorem C2_signal_invariants:
  assumes "t < length zs"
  shows "(entry_signal (generate_signals sg zs ! t) \<noteq> 0 \<longrightarrow>
            position (generate_signals sg zs ! t) \<noteq> 0 \<and>
            (0 < t \<longrightarrow> position (generate_signals sg zs ! (t - 1)) = 0)) \<and>
         (exit_signal (generate_signals sg zs ! t) = 1 \<longrightarrow>
            position (generate_signals sg zs ! t) = 0 \<and> 0 < t \<and>
            position (generate_signals sg zs ! (t - 1)) \<noteq> 0) \<and>
         \<not> (entry_signal (generate_signals sg zs ! t) \<noteq> 0 \<and>
            exit_signal (generate_signals sg zs ! t) \<noteq> 0)"
proof -
  from signal_loop_row [OF assms, of Flat sg] obtain s' where
    p: "prev_position 0 (generate_signals sg zs) t = pos_of s'" and
    r: "generate_signals sg zs ! t = snd (signal_step sg (pos_of s') (init_row (zs ! t)))"
    by (auto simp: generate_signals_def)
  show ?thesis
    using p unfolding r signal_step_spec
    by (cases s'; cases t) (auto simp: prev_position_def split: if_splits)
qed

theorem C2_signal_invariants_witness:
  "(2::nat) < length [NaN, Fin (- 2), Fin (- 5/2), Fin (- 1), Fin (- 2/5)] \<and>
   entry_signal (generate_signals \<lparr>entry_threshold = Fin 2, exit_threshold = Fin (1/2), stop_loss = Fin 3\<rparr>
      [NaN, Fin (- 2), Fin (- 5/2), Fin (- 1), Fin (- 2/5)] ! 2) \<noteq> 0 \<and>
   position (generate_signals \<lparr>entry_threshold = Fin 2, exit_threshold = Fin (1/2), stop_loss = Fin 3\<rparr>
      [NaN, Fin (- 2), Fin (- 5/2), Fin (- 1), Fin (- 2/5)] ! 2) \<noteq> 0 \<and>
   position (generate_signals \<lparr>entry_threshold = Fin 2, exit_threshold = Fin (1/2), stop_loss = Fin 3\<rparr>
      [NaN, Fin (- 2), Fin (- 5/2), Fin (- 1), Fin (- 2/5)] ! 1) = 0 \<and>
   (4::nat) < length [NaN, Fin (- 2), Fin (- 5/2), Fin (- 1), Fin (- 2/5)] \<and>
   exit_signal (generate_signals \<lparr>entry_threshold = Fin 2, exit_threshold = Fin (1/2), stop_loss = Fin 3\<rparr>
      [NaN, Fin (- 2), Fin (- 5/2), Fin (- 1), Fin (- 2/5)] ! 4) = 1 \<and>
   position (generate_signals \<lparr>entry_threshold = Fin 2, exit_threshold = Fin (1/2), stop_loss = Fin 3\<rparr>
      [NaN, Fin (- 2), Fin (- 5/2), Fin (- 1), Fin (- 2/5)] ! 4) = 0 \<and>
   position (generate_signals \<lparr>entry_threshold = Fin 2, exit_threshold = Fin (1/2), stop_loss = Fin 3\<rparr>
      [NaN, Fin (- 2), Fin (- 5/2), Fin (- 1), Fin (- 2/5)] ! 3) \<noteq> 0"
  using C2_signal_invariants [of 2 "[NaN, Fin (- 2), Fin (- 5/2), Fin (- 1), Fin (- 2/5)]"
          "\<lparr>entry_threshold = Fin 2, exit_threshold = Fin (1/2), stop_loss = Fin 3\<rparr>"]
        C2_signal_invariants [of 4 "[NaN, Fin (- 2), Fin (- 5/2), Fin (- 1), Fin (- 2/5)]"
          "\<lparr>entry_threshold = Fin 2, exit_threshold = Fin (1/2), stop_loss = Fin 3\<rparr>"]
  by (simp add: generate_signals_def signal_step_def init_row_def fgt_def Let_def)

section \<open>Properties of the backtester\<close>

lemma fold_update_length [simp]:
  "length (fold (\<lambda>i xs. xs[i := f i]) ks xs) = length xs"
  by (induction ks arbitrary: xs) auto

lemma fold_update_nth:
  "t < length xs \<Longrightarrow>
   fold (\<lambda>i xs. xs[i := f i]) [a..<b] xs ! t = (if a \<le> t \<and> t < b then f t else xs ! t)"
proof (induction b)
  case 0
  then show ?case by simp
next
  case (Suc b)
  have len: "length (fold (\<lambda>i xs. xs[i := f i]) [a..<b] xs) = length xs"
    by (rule fold_update_length)
  consider (out) "\<not> a \<le> b" | (hit) "a \<le> b" "t = b" | (other) "a \<le> b" "t \<noteq> b"
    by blast
  then show ?case
  proof cases
    case out
    then show ?thesis by auto
  next
    case hit
    then show ?thesis using len Suc.prems by simp
  next
    case other
    then show ?thesis using len Suc by auto
  qed
qed

lemma strategy_return_step_eq:
  "strategy_return_step pos r1 r2 = (\<lambda>i sr. sr[i := strategy_return_at pos r1 r2 i])"
  by (auto simp: strategy_return_step_def strategy_return_at_def Let_def fun_eq_iff)

lemma length_cumprod_from [simp]: "length (cumprod_from acc xs) = length xs"
  by (induction xs arbitrary: acc) (auto simp: Let_def)

lemma length_cumprod [simp]: "length (cumprod xs) = length xs"
  by (simp add: cumprod_def)

lemma length_diff [simp]: "length (diff xs) = length xs"
  by (simp add: diff_def)

lemma length_reindex [simp]: "length (reindex n xs) = n"
  by (simp add: reindex_def)

lemma length_pct_change [simp]: "length (pct_change p) = length p"
  by (simp add: pct_change_def)

lemma cr_strategy_return:
  "strategy_return (calculate_returns bt sigs p1 p2) =
     fold (\<lambda>i sr. sr[i := strategy_return_at (map position sigs)
                            (reindex (length sigs) (pct_change p1))
                            (reindex (length sigs) (pct_change p2)) i])
       [1..<length sigs] (replicate (length sigs) (Fin 0))"
  by (simp add: calculate_returns_def Let_def strategy_return_step_eq)

lemma cr_position_change:
  "position_change (calculate_returns bt sigs p1 p2) = map fabs (diff (map position sigs))"
  by (simp add: calculate_returns_def Let_def)

lemma cr_transaction_costs:
  "transaction_costs (calculate_returns bt sigs p1 p2) =
     map (\<lambda>c. fmul c (transaction_cost bt)) (position_change (calculate_returns bt sigs p1 p2))"
  by (simp add: calculate_returns_def Let_def)

lemma cr_slippage:
  "slippage_col (calculate_returns bt sigs p1 p2) =
     map (\<lambda>c. fmul c (slippage bt)) (position_change (calculate_returns bt sigs p1 p2))"
  by (simp add: calculate_returns_def Let_def)

lemma cr_net_return:
  "net_return (calculate_returns bt sigs p1 p2) =
     map2 fsub (map2 fsub (strategy_return (calculate_returns bt sigs p1 p2))
                          (transaction_costs (calculate_returns bt sigs p1 p2)))
               (slippage_col (calculate_returns bt sigs p1 p2))"
  by (simp add: calculate_returns_def Let_def)

lemma cr_cumulative_return:
  "cumulative_return (calculate_returns bt sigs p1 p2) =
     map (\<lambda>x. fsub x (Fin 1))
       (cumprod (map (\<lambda>x. fadd (Fin 1) x) (net_return (calculate_returns bt sigs p1 p2))))"
  by (simp add: calculate_returns_def Let_def)

lemma cr_portfolio_value:
  "portfolio_value (calculate_returns bt sigs p1 p2) =
     map (\<lambda>c. fmul (initial_capital bt) (fadd (Fin 1) c))
       (cumulative_return (calculate_returns bt sigs p1 p2))"
  by (simp add: calculate_returns_def Let_def)

lemma cr_lengths [simp]:
  "length (strategy_return (calculate_returns bt sigs p1 p2)) = length sigs"
  "length (position_change (calculate_returns bt sigs p1 p2)) = length sigs"
  "length (transaction_costs (calculate_returns bt sigs p1 p2)) = length sigs"
  "length (slippage_col (calculate_returns bt sigs p1 p2)) = length sigs"
  "length (net_return (calculate_returns bt sigs p1 p2)) = length sigs"
  "length (cumulative_return (calculate_returns bt sigs p1 p2)) = length sigs"
  "length (portfolio_value (calculate_returns bt sigs p1 p2)) = length sigs"
  by (simp_all add: calculate_returns_def Let_def strategy_return_step_eq)

lemma strategy_return_nth:
  "t < length sigs \<Longrightarrow>
   strategy_return (calculate_returns bt sigs p1 p2) ! t =
     (if 1 \<le> t then strategy_return_at (map position sigs)
                            (reindex (length sigs) (pct_change p1))
                            (reindex (length sigs) (pct_change p2)) t
      else Fin 0)"
  by (simp add: cr_strategy_return fold_update_nth)

lemma reindex_pct_change_nth:
  "1 \<le> t \<Longrightarrow> t < n \<Longrightarrow> t < length p \<Longrightarrow> reindex n (pct_change p) ! t = simple_return p t"
  by (simp add: reindex_def pct_change_def simple_return_def)

text \<open>
  \<^bold>\<open>C3.\<close> For every row \<open>t \<ge> 1\<close> of the table of \<open>calculate_returns\<close> (prices on the index of
  the signals), the strategy return is attributed to the position of the row before: 0 for
  position 0, the simple return of symbol 2 minus that of symbol 1 for position +1, and the
  simple return of symbol 1 minus that of symbol 2 for position -1.
\<close>

theorem C3_strategy_return_lagged:
  assumes "1 \<le> t" and "t < length sigs"
    and "length prices1 = length sigs" and "length prices2 = length sigs"
  shows "(position (sigs ! (t - 1)) = 0 \<longrightarrow>
            strategy_return (calculate_returns bt sigs prices1 prices2) ! t = Fin 0) \<and>
         (position (sigs ! (t - 1)) = 1 \<longrightarrow>
            strategy_return (calculate_returns bt sigs prices1 prices2) ! t =
              fsub (simple_return prices2 t) (simple_return prices1 t)) \<and>
         (position (sigs ! (t - 1)) = - 1 \<longrightarrow>
            strategy_return (calculate_returns bt sigs prices1 prices2) ! t =
              fsub (simple_return prices1 t) (simple_return prices2 t))"
  using assms
  by (simp add: strategy_return_nth strategy_return_at_def reindex_pct_change_nth)

theorem C3_strategy_return_lagged_witness:
  "(1::nat) \<le> 2 \<and> (2::nat) < length [init_row NaN, (init_row (Fin (- 3)))\<lparr>position := 1\<rparr>,
       (init_row (Fin 3))\<lparr>position := - 1\<rparr>, init_row (Fin 0)] \<and>
   length [100, 101, 99, 100 :: real] = length [init_row NaN, (init_row (Fin (- 3)))\<lparr>position := 1\<rparr>,
       (init_row (Fin 3))\<lparr>position := - 1\<rparr>, init_row (Fin 0)] \<and>
   position ([init_row NaN, (init_row (Fin (- 3)))\<lparr>position := 1\<rparr>,
       (init_row (Fin 3))\<lparr>position := - 1\<rparr>, init_row (Fin 0)] ! (1 - 1)) = 0 \<and>
   strategy_return (calculate_returns \<lparr>initial_capital = Fin 100000, transaction_cost = Fin (1/1000), slippage = Fin (1/2000)\<rparr>
      [init_row NaN, (init_row (Fin (- 3)))\<lparr>position := 1\<rparr>,
       (init_row (Fin 3))\<lparr>position := - 1\<rparr>, init_row (Fin 0)]
      [100, 101, 99, 100] [100, 103, 97, 100]) ! 1 = Fin 0 \<and>
   position ([init_row NaN, (init_row (Fin (- 3)))\<lparr>position := 1\<rparr>,
       (init_row (Fin 3))\<lparr>position := - 1\<rparr>, init_row (Fin 0)] ! (2 - 1)) = 1 \<and>
   strategy_return (calculate_returns \<lparr>initial_capital = Fin 100000, transaction_cost = Fin (1/1000), slippage = Fin (1/2000)\<rparr>
      [init_row NaN, (init_row (Fin (- 3)))\<lparr>position := 1\<rparr>,
       (init_row (Fin 3))\<lparr>position := - 1\<rparr>, init_row (Fin 0)]
      [100, 101, 99, 100] [100, 103, 97, 100]) ! 2 =
     Fin ((97 / 103 - 1) - (99 / 101 - 1)) \<and>
   position ([init_row NaN, (init_row (Fin (- 3)))\<lparr>position := 1\<rparr>,
       (init_row (Fin 3))\<lparr>position := - 1\<rparr>, init_row (Fin 0)] ! (3 - 1)) = - 1 \<and>
   strategy_return (calculate_returns \<lparr>initial_capital = Fin 100000, transaction_cost = Fin (1/1000), slippage = Fin (1/2000)\<rparr>
      [init_row NaN, (init_row (Fin (- 3)))\<lparr>position := 1\<rparr>,
       (init_row (Fin 3))\<lparr>position := - 1\<rparr>, init_row (Fin 0)]
      [100, 101, 99, 100] [100, 103, 97, 100]) ! 3 =
     Fin ((100 / 99 - 1) - (100 / 97 - 1))"
  using C3_strategy_return_lagged [of 1 "[init_row NaN, (init_row (Fin (- 3)))\<lparr>position := 1\<rparr>,
       (init_row (Fin 3))\<lparr>position := - 1\<rparr>, init_row (Fin 0)]"
       "[100, 101, 99, 100]" "[100, 103, 97, 100]"
       "\<lparr>initial_capital = Fin 100000, transaction_cost = Fin (1/1000), slippage = Fin (1/2000)\<rparr>"]
    C3_strategy_return_lagged [of 2 "[init_row NaN, (init_row (Fin (- 3)))\<lparr>position := 1\<rparr>,
       (init_row (Fin 3))\<lparr>position := - 1\<rparr>, init_row (Fin 0)]"
       "[100, 101, 99, 100]" "[100, 103, 97, 100]"
       "\<lparr>initial_capital = Fin 100000, transaction_cost = Fin (1/1000), slippage = Fin (1/2000)\<rparr>"]
    C3_strategy_return_lagged [of 3 "[init_row NaN, (init_row (Fin (- 3)))\<lparr>position := 1\<rparr>,
       (init_row (Fin 3))\<lparr>position := - 1\<rparr>, init_row (Fin 0)]"
       "[100, 101, 99, 100]" "[100, 103, 97, 100]"
       "\<lparr>initial_capital = Fin 100000, transaction_cost = Fin (1/1000), slippage = Fin (1/2000)\<rparr>"]
  by (simp add: init_row_def simple_return_def fsub_def)

lemma position_change_nth:
  "1 \<le> t \<Longrightarrow> t < length sigs \<Longrightarrow>
   position_change (calculate_returns bt sigs p1 p2) ! t =
     Fin (real_of_int \<bar>position (sigs ! t) - position (sigs ! (t - 1))\<bar>)"
  by (simp add: cr_position_change diff_def)

lemma position_change_0:
  "sigs \<noteq> [] \<Longrightarrow> position_change (calculate_returns bt sigs p1 p2) ! 0 = NaN"
  by (simp add: cr_position_change diff_def upt_conv_Cons)

lemma cumprod_from_nth:
  "t < length xs \<Longrightarrow>
   cumprod_from acc xs ! t =
     (if xs ! t = NaN then NaN else fold (\<lambda>x a. fmul a x) (nanvals (take (Suc t) xs)) acc)"
proof (induction xs arbitrary: acc t)
  case Nil
  then show ?case by simp
next
  case (Cons x xs)
  then show ?case
    by (cases t) (auto simp: nanvals_def Let_def)
qed

lemma nanvals_skip_first:
  assumes "t < length xs" "xs ! 0 = NaN" "\<forall>k. 1 \<le> k \<and> k \<le> t \<longrightarrow> xs ! k \<noteq> NaN"
  shows "nanvals (take (Suc t) xs) = map (\<lambda>k. xs ! k) [1..<Suc t]"
proof -
  have "take (Suc t) xs = map (\<lambda>k. xs ! k) [0..<Suc t]"
    using assms(1) by (intro nth_equalityI) (simp_all del: upt_Suc)
  also have "[0..<Suc t] = 0 # [1..<Suc t]"
    by (simp add: upt_conv_Cons del: upt_Suc)
  finally have "nanvals (take (Suc t) xs) = filter (\<lambda>x. x \<noteq> NaN) (map (\<lambda>k. xs ! k) [1..<Suc t])"
    using assms(2) by (simp add: nanvals_def del: upt_Suc)
  also have "\<dots> = map (\<lambda>k. xs ! k) [1..<Suc t]"
    using assms(3) by (intro filter_True) auto
  finally show ?thesis .
qed

lemma fold_map_idx:
  "fold (\<lambda>x a. fmul a x) (map f ks) acc = fold (\<lambda>k a. fmul a (f k)) ks acc"
  by (simp add: fold_map comp_def)

lemma fadd_one_NaN [simp]: "(fadd (Fin 1) x = NaN) = (x = NaN)"
  by (cases x) simp_all

lemma cumulative_return_nth:
  assumes "1 \<le> t" "t < length sigs"
    and "\<forall>k. 1 \<le> k \<and> k \<le> t \<longrightarrow> net_return (calculate_returns bt sigs p1 p2) ! k \<noteq> NaN"
    and "net_return (calculate_returns bt sigs p1 p2) ! 0 = NaN"
  shows "cumulative_return (calculate_returns bt sigs p1 p2) ! t =
           fsub (compound (net_return (calculate_returns bt sigs p1 p2)) t) (Fin 1)"
proof -
  define net where "net = net_return (calculate_returns bt sigs p1 p2)"
  define xs where "xs = map (\<lambda>x. fadd (Fin 1) x) net"
  have len: "length xs = length sigs" by (simp add: xs_def net_def)
  have t: "t < length xs" using assms(2) len by simp
  have pos: "0 < length sigs" using assms(2) by auto
  have x0: "xs ! 0 = NaN" using assms(4) pos by (simp add: xs_def net_def)
  have xk: "\<forall>k. 1 \<le> k \<and> k \<le> t \<longrightarrow> xs ! k \<noteq> NaN"
    using assms(3) t len by (simp add: xs_def net_def)
  have xt: "xs ! t \<noteq> NaN" using xk assms(1) by simp
  have "cumprod xs ! t = fold (\<lambda>x a. fmul a x) (map (\<lambda>k. xs ! k) [1..<Suc t]) (Fin 1)"
    using cumprod_from_nth [OF t, of "Fin 1"] xt nanvals_skip_first [OF t x0 xk]
    by (simp add: cumprod_def del: upt_Suc)
  also have "\<dots> = fold (\<lambda>k a. fmul a (xs ! k)) [1..<Suc t] (Fin 1)"
    by (rule fold_map_idx)
  also have "\<dots> = fold (\<lambda>k a. fmul a (fadd (Fin 1) (net ! k))) [1..<Suc t] (Fin 1)"
    using t len by (intro fold_cong) (auto simp: xs_def)
  finally have "cumprod xs ! t = compound net t"
    by (simp add: compound_def del: upt_Suc)
  then show ?thesis
    using t by (simp add: cr_cumulative_return net_def [symmetric] xs_def [symmetric])
qed

lemma transaction_costs_0:
  "sigs \<noteq> [] \<Longrightarrow> transaction_costs (calculate_returns bt sigs p1 p2) ! 0 = NaN"
  by (simp add: cr_transaction_costs position_change_0)

lemma slippage_0:
  "sigs \<noteq> [] \<Longrightarrow> slippage_col (calculate_returns bt sigs p1 p2) ! 0 = NaN"
  by (simp add: cr_slippage position_change_0)

lemma fsub_NaN_right [simp]: "fsub x NaN = NaN"
  by (cases x) (simp_all add: fsub_def)

lemma fsub_NaN_left [simp]: "fsub NaN x = NaN"
  by (simp add: fsub_def)

lemma fmul_NaN_right [simp]: "fmul x NaN = NaN"
  by (cases x) simp_all

lemma net_return_nth:
  "t < length sigs \<Longrightarrow>
   net_return (calculate_returns bt sigs p1 p2) ! t =
     fsub (fsub (strategy_return (calculate_returns bt sigs p1 p2) ! t)
                (transaction_costs (calculate_returns bt sigs p1 p2) ! t))
          (slippage_col (calculate_returns bt sigs p1 p2) ! t)"
  by (simp add: cr_net_return)

lemma net_return_0:
  "sigs \<noteq> [] \<Longrightarrow> net_return (calculate_returns bt sigs p1 p2) ! 0 = NaN"
  by (simp add: net_return_nth slippage_0)

lemma cumulative_return_0:
  "sigs \<noteq> [] \<Longrightarrow> cumulative_return (calculate_returns bt sigs p1 p2) ! 0 = NaN"
  using cumprod_from_nth [of 0 "map (\<lambda>x. fadd (Fin 1) x) (net_return (calculate_returns bt sigs p1 p2))" "Fin 1"]
  by (simp add: cr_cumulative_return cumprod_def net_return_0)

lemma portfolio_value_nth:
  "t < length sigs \<Longrightarrow>
   portfolio_value (calculate_returns bt sigs p1 p2) ! t =
     fmul (initial_capital bt) (fadd (Fin 1) (cumulative_return (calculate_returns bt sigs p1 p2) ! t))"
  by (simp add: cr_portfolio_value)



lemma is_fin_fadd: "is_fin a \<Longrightarrow> is_fin b \<Longrightarrow> is_fin (fadd a b)"
  by (cases a; cases b) simp_all

lemma is_fin_fsub: "is_fin a \<Longrightarrow> is_fin b \<Longrightarrow> is_fin (fsub a b)"
  by (cases a; cases b) (simp_all add: fsub_def)

lemma is_fin_fmul: "is_fin a \<Longrightarrow> is_fin b \<Longrightarrow> is_fin (fmul a b)"
  by (cases a; cases b) simp_all

lemma is_fin_not_NaN: "is_fin a \<Longrightarrow> a \<noteq> NaN"
  by (cases a) simp_all

lemma simple_return_fin:
  "1 \<le> t \<Longrightarrow> t < length p \<Longrightarrow> positive_prices p \<Longrightarrow> is_fin (simple_return p t)"
proof -
  assume a: "1 \<le> t" "t < length p" "positive_prices p"
  then have "p ! (t - 1) \<in> set p" by (intro nth_mem) simp
  with a(3) have "0 < p ! (t - 1)" by (simp add: positive_prices_def list_all_iff)
  then show ?thesis by (simp add: simple_return_def fsub_def)
qed

lemma strategy_return_fin:
  assumes "1 \<le> t" "t < length sigs" "length p1 = length sigs" "length p2 = length sigs"
    "positive_prices p1" "positive_prices p2"
  shows "is_fin (strategy_return (calculate_returns bt sigs p1 p2) ! t)"
  using assms simple_return_fin [of t p1] simple_return_fin [of t p2]
  by (simp add: strategy_return_nth strategy_return_at_def reindex_pct_change_nth is_fin_fsub)

lemma net_return_fin:
  assumes "1 \<le> t" "t < length sigs" "length p1 = length sigs" "length p2 = length sigs"
    "positive_prices p1" "positive_prices p2" "is_fin (transaction_cost bt)" "is_fin (slippage bt)"
  shows "is_fin (transaction_costs (calculate_returns bt sigs p1 p2) ! t)"
    and "is_fin (slippage_col (calculate_returns bt sigs p1 p2) ! t)"
    and "is_fin (net_return (calculate_returns bt sigs p1 p2) ! t)"
proof -
  show a: "is_fin (transaction_costs (calculate_returns bt sigs p1 p2) ! t)"
    using assms(1,2,7) by (simp add: cr_transaction_costs position_change_nth is_fin_fmul)
  show b: "is_fin (slippage_col (calculate_returns bt sigs p1 p2) ! t)"
    using assms(1,2,8) by (simp add: cr_slippage position_change_nth is_fin_fmul)
  show "is_fin (net_return (calculate_returns bt sigs p1 p2) ! t)"
    using a b strategy_return_fin [OF assms(1-6), of bt]
    by (simp add: net_return_nth [OF assms(2)] is_fin_fsub)
qed

lemma fold_fmul_fin:
  "is_fin acc \<Longrightarrow> \<forall>k\<in>set ks. is_fin (f k) \<Longrightarrow> is_fin (fold (\<lambda>k a. fmul a (f k)) ks acc)"
  by (induction ks arbitrary: acc) (simp_all add: is_fin_fmul)

lemma cumulative_return_fin:
  assumes "1 \<le> t" "t < length sigs" "length p1 = length sigs" "length p2 = length sigs"
    "positive_prices p1" "positive_prices p2" "is_fin (transaction_cost bt)" "is_fin (slippage bt)"
  shows "is_fin (cumulative_return (calculate_returns bt sigs p1 p2) ! t)"
proof -
  have ne: "sigs \<noteq> []" using assms(2) by auto
  have fin: "is_fin (net_return (calculate_returns bt sigs p1 p2) ! k)" if "1 \<le> k" "k \<le> t" for k
    using that assms net_return_fin(3) [of k sigs p1 p2 bt] by simp
  then have nn: "\<forall>k. 1 \<le> k \<and> k \<le> t \<longrightarrow> net_return (calculate_returns bt sigs p1 p2) ! k \<noteq> NaN"
    by (auto dest: is_fin_not_NaN)
  have "is_fin (compound (net_return (calculate_returns bt sigs p1 p2)) t)"
    unfolding compound_def
    by (rule fold_fmul_fin) (auto simp: is_fin_fadd fin simp del: upt_Suc)
  then show ?thesis
    by (simp add: cumulative_return_nth [OF assms(1,2) nn net_return_0 [OF ne]] is_fin_fsub)
qed

lemma cr_symbol_returns:
  "symbol1_returns (calculate_returns bt sigs p1 p2) = reindex (length sigs) (pct_change p1)"
  "symbol2_returns (calculate_returns bt sigs p1 p2) = reindex (length sigs) (pct_change p2)"
  by (simp_all add: calculate_returns_def Let_def)

lemma strategy_return_defined:
  assumes "1 \<le> t" "t < length sigs"
    "is_fin (symbol1_returns (calculate_returns bt sigs p1 p2) ! t)"
    "is_fin (symbol2_returns (calculate_returns bt sigs p1 p2) ! t)"
  shows "is_fin (strategy_return (calculate_returns bt sigs p1 p2) ! t)"
  using assms
  by (simp add: strategy_return_nth strategy_return_at_def cr_symbol_returns is_fin_fsub)

lemma strategy_return_flat:
  "1 \<le> t \<Longrightarrow> t < length sigs \<Longrightarrow> position (sigs ! (t - 1)) = 0 \<Longrightarrow>
   strategy_return (calculate_returns bt sigs p1 p2) ! t = Fin 0"
  by (simp add: strategy_return_nth strategy_return_at_def)

lemma costs_defined:
  assumes "1 \<le> t" "t < length sigs"
  shows "is_fin (transaction_cost bt) \<Longrightarrow>
           is_fin (transaction_costs (calculate_returns bt sigs p1 p2) ! t)"
    and "is_fin (slippage bt) \<Longrightarrow> is_fin (slippage_col (calculate_returns bt sigs p1 p2) ! t)"
  using assms
  by (simp_all add: cr_transaction_costs cr_slippage position_change_nth is_fin_fmul)

lemma net_return_defined:
  assumes "t < length sigs"
    "is_fin (strategy_return (calculate_returns bt sigs p1 p2) ! t)"
    "is_fin (transaction_costs (calculate_returns bt sigs p1 p2) ! t)"
    "is_fin (slippage_col (calculate_returns bt sigs p1 p2) ! t)"
  shows "is_fin (net_return (calculate_returns bt sigs p1 p2) ! t)"
  using assms by (simp add: net_return_nth is_fin_fsub)

lemma cumulative_return_defined:
  assumes "1 \<le> t" "t < length sigs"
    and "\<forall>k. 1 \<le> k \<and> k \<le> t \<longrightarrow> is_fin (net_return (calculate_returns bt sigs p1 p2) ! k)"
  shows "is_fin (cumulative_return (calculate_returns bt sigs p1 p2) ! t)"
proof -
  have ne: "sigs \<noteq> []" using assms(2) by auto
  have nn: "\<forall>k. 1 \<le> k \<and> k \<le> t \<longrightarrow> net_return (calculate_returns bt sigs p1 p2) ! k \<noteq> NaN"
    using assms(3) by (auto dest: is_fin_not_NaN)
  have "is_fin (compound (net_return (calculate_returns bt sigs p1 p2)) t)"
    unfolding compound_def
    by (rule fold_fmul_fin) (auto simp: is_fin_fadd assms(3) simp del: upt_Suc)
  then show ?thesis
    by (simp add: cumulative_return_nth [OF assms(1,2) nn net_return_0 [OF ne]] is_fin_fsub)
qed

text \<open>
  \<^bold>\<open>C10\<close> (as amended). In the table of \<open>calculate_returns\<close> on any nonempty input, the first
  row of \<open>transaction_costs\<close>, \<open>slippage\<close>, \<open>net_return\<close>, \<open>cumulative_return\<close> and
  \<open>portfolio_value\<close> is NaN (the position difference has no predecessor), while the first
  strategy return is the number 0. At a row \<open>t \<ge> 1\<close> the columns are defined under these
  conditions, not for every input: \<open>transaction_costs\<close> and \<open>slippage\<close> for a finite rate;
  \<open>strategy_return\<close> when the position of the row before is 0 (it is 0) or both price returns
  of the row are finite; \<open>net_return\<close> when strategy return, transaction cost and slippage of
  the row are finite; \<open>cumulative_return\<close> when the net returns of the rows 1 to \<open>t\<close> are
  finite and greater than -1, and then \<open>portfolio_value\<close> too for a finite nonzero capital.
\<close>

theorem C10_first_row_and_later_rows:
  assumes "sigs \<noteq> []"
  shows "transaction_costs (calculate_returns bt sigs prices1 prices2) ! 0 = NaN \<and>
         slippage_col (calculate_returns bt sigs prices1 prices2) ! 0 = NaN \<and>
         net_return (calculate_returns bt sigs prices1 prices2) ! 0 = NaN \<and>
         cumulative_return (calculate_returns bt sigs prices1 prices2) ! 0 = NaN \<and>
         portfolio_value (calculate_returns bt sigs prices1 prices2) ! 0 = NaN \<and>
         strategy_return (calculate_returns bt sigs prices1 prices2) ! 0 = Fin 0 \<and>
         (\<forall>t. 1 \<le> t \<and> t < length sigs \<longrightarrow>
            (is_fin (transaction_cost bt) \<longrightarrow>
               transaction_costs (calculate_returns bt sigs prices1 prices2) ! t \<noteq> NaN) \<and>
            (is_fin (slippage bt) \<longrightarrow>
               slippage_col (calculate_returns bt sigs prices1 prices2) ! t \<noteq> NaN) \<and>
            (position (sigs ! (t - 1)) = 0 \<longrightarrow>
               strategy_return (calculate_returns bt sigs prices1 prices2) ! t = Fin 0) \<and>
            (is_fin (symbol1_returns (calculate_returns bt sigs prices1 prices2) ! t) \<and>
             is_fin (symbol2_returns (calculate_returns bt sigs prices1 prices2) ! t) \<longrightarrow>
               strategy_return (calculate_returns bt sigs prices1 prices2) ! t \<noteq> NaN) \<and>
            (is_fin (strategy_return (calculate_returns bt sigs prices1 prices2) ! t) \<and>
             is_fin (transaction_costs (calculate_returns bt sigs prices1 prices2) ! t) \<and>
             is_fin (slippage_col (calculate_returns bt sigs prices1 prices2) ! t) \<longrightarrow>
               net_return (calculate_returns bt sigs prices1 prices2) ! t \<noteq> NaN) \<and>
            ((\<forall>k. 1 \<le> k \<and> k \<le> t \<longrightarrow>
                 is_fin (net_return (calculate_returns bt sigs prices1 prices2) ! k) \<and>
                 flt (Fin (- 1)) (net_return (calculate_returns bt sigs prices1 prices2) ! k)) \<longrightarrow>
               cumulative_return (calculate_returns bt sigs prices1 prices2) ! t \<noteq> NaN \<and>
               (is_fin (initial_capital bt) \<and> initial_capital bt \<noteq> Fin 0 \<longrightarrow>
                  portfolio_value (calculate_returns bt sigs prices1 prices2) ! t \<noteq> NaN)))"
proof -
  let ?r = "calculate_returns bt sigs prices1 prices2"
  have pos: "0 < length sigs" using assms by simp
  have pv0: "portfolio_value ?r ! 0 = NaN"
    using pos by (simp add: portfolio_value_nth cumulative_return_0 [OF assms])
  have sr0: "strategy_return ?r ! 0 = Fin 0"
    using pos by (simp add: strategy_return_nth)
  have rest: "(is_fin (transaction_cost bt) \<longrightarrow> transaction_costs ?r ! t \<noteq> NaN) \<and>
      (is_fin (slippage bt) \<longrightarrow> slippage_col ?r ! t \<noteq> NaN) \<and>
      (position (sigs ! (t - 1)) = 0 \<longrightarrow> strategy_return ?r ! t = Fin 0) \<and>
      (is_fin (symbol1_returns ?r ! t) \<and> is_fin (symbol2_returns ?r ! t) \<longrightarrow>
         strategy_return ?r ! t \<noteq> NaN) \<and>
      (is_fin (strategy_return ?r ! t) \<and> is_fin (transaction_costs ?r ! t) \<and>
       is_fin (slippage_col ?r ! t) \<longrightarrow> net_return ?r ! t \<noteq> NaN) \<and>
      ((\<forall>k. 1 \<le> k \<and> k \<le> t \<longrightarrow>
           is_fin (net_return ?r ! k) \<and> flt (Fin (- 1)) (net_return ?r ! k)) \<longrightarrow>
         cumulative_return ?r ! t \<noteq> NaN \<and>
         (is_fin (initial_capital bt) \<and> initial_capital bt \<noteq> Fin 0 \<longrightarrow>
            portfolio_value ?r ! t \<noteq> NaN))"
    if h: "1 \<le> t" "t < length sigs" for t
  proof -
    have a: "is_fin (transaction_cost bt) \<longrightarrow> transaction_costs ?r ! t \<noteq> NaN"
      using costs_defined(1) [OF h] by (blast dest: is_fin_not_NaN)
    have b: "is_fin (slippage bt) \<longrightarrow> slippage_col ?r ! t \<noteq> NaN"
      using costs_defined(2) [OF h] by (blast dest: is_fin_not_NaN)
    have c: "position (sigs ! (t - 1)) = 0 \<longrightarrow> strategy_return ?r ! t = Fin 0"
      using strategy_return_flat [OF h] by blast
    have d: "is_fin (symbol1_returns ?r ! t) \<and> is_fin (symbol2_returns ?r ! t) \<longrightarrow>
         strategy_return ?r ! t \<noteq> NaN"
      using strategy_return_defined [OF h] by (blast dest: is_fin_not_NaN)
    have e: "is_fin (strategy_return ?r ! t) \<and> is_fin (transaction_costs ?r ! t) \<and>
       is_fin (slippage_col ?r ! t) \<longrightarrow> net_return ?r ! t \<noteq> NaN"
      using net_return_defined [OF h(2)] by (blast dest: is_fin_not_NaN)
    have f: "cumulative_return ?r ! t \<noteq> NaN \<and>
         (is_fin (initial_capital bt) \<and> initial_capital bt \<noteq> Fin 0 \<longrightarrow>
            portfolio_value ?r ! t \<noteq> NaN)"
      if n: "\<forall>k. 1 \<le> k \<and> k \<le> t \<longrightarrow>
           is_fin (net_return ?r ! k) \<and> flt (Fin (- 1)) (net_return ?r ! k)"
    proof -
      from n have "\<forall>k. 1 \<le> k \<and> k \<le> t \<longrightarrow> is_fin (net_return ?r ! k)" by blast
      from cumulative_return_defined [OF h this]
      have cf: "is_fin (cumulative_return ?r ! t)" .
      then have "is_fin (initial_capital bt) \<longrightarrow> is_fin (portfolio_value ?r ! t)"
        by (simp add: portfolio_value_nth [OF h(2)] is_fin_fmul is_fin_fadd)
      with cf show ?thesis by (blast dest: is_fin_not_NaN)
    qed
    from a b c d e f show ?thesis by blast
  qed
  from transaction_costs_0 [OF assms] slippage_0 [OF assms] net_return_0 [OF assms]
    cumulative_return_0 [OF assms] pv0 sr0 rest
  show ?thesis by blast
qed

theorem C10_first_row_and_later_rows_witness:
  "[init_row NaN, (init_row (Fin (- 3)))\<lparr>position := 1\<rparr>, init_row (Fin 0)] \<noteq> [] \<and>
   (1::nat) \<le> 2 \<and> (2::nat) < length [init_row NaN, (init_row (Fin (- 3)))\<lparr>position := 1\<rparr>, init_row (Fin 0)] \<and>
   is_fin (transaction_cost \<lparr>initial_capital = Fin 100000, transaction_cost = Fin (1/1000), slippage = Fin (1/2000)\<rparr>) \<and>
   is_fin (slippage \<lparr>initial_capital = Fin 100000, transaction_cost = Fin (1/1000), slippage = Fin (1/2000)\<rparr>) \<and>
   is_fin (initial_capital \<lparr>initial_capital = Fin 100000, transaction_cost = Fin (1/1000), slippage = Fin (1/2000)\<rparr>) \<and>
   initial_capital \<lparr>initial_capital = Fin 100000, transaction_cost = Fin (1/1000), slippage = Fin (1/2000)\<rparr> \<noteq> Fin 0 \<and>
   net_return (calculate_returns
      \<lparr>initial_capital = Fin 100000, transaction_cost = Fin (1/1000), slippage = Fin (1/2000)\<rparr>
      [init_row NaN, (init_row (Fin (- 3)))\<lparr>position := 1\<rparr>, init_row (Fin 0)]
      [100, 101, 99] [100, 103, 97]) = [NaN, Fin (- (3/2000)), Fin (97/103 - 99/101 - 3/2000)] \<and>
   flt (Fin (- 1)) (Fin (- (3/2000))) \<and> flt (Fin (- 1)) (Fin (97/103 - 99/101 - 3/2000)) \<and>
   portfolio_value (calculate_returns
      \<lparr>initial_capital = Fin 100000, transaction_cost = Fin (1/1000), slippage = Fin (1/2000)\<rparr>
      [init_row NaN, (init_row (Fin (- 3)))\<lparr>position := 1\<rparr>, init_row (Fin 0)]
      [100, 101, 99] [100, 103, 97]) ! 0 = NaN \<and>
   transaction_costs (calculate_returns
      \<lparr>initial_capital = Fin 100000, transaction_cost = Fin (1/1000), slippage = Fin (1/2000)\<rparr>
      [init_row NaN, (init_row (Fin (- 3)))\<lparr>position := 1\<rparr>, init_row (Fin 0)]
      [100, 101, 99] [100, 103, 97]) ! 2 \<noteq> NaN \<and>
   slippage_col (calculate_returns
      \<lparr>initial_capital = Fin 100000, transaction_cost = Fin (1/1000), slippage = Fin (1/2000)\<rparr>
      [init_row NaN, (init_row (Fin (- 3)))\<lparr>position := 1\<rparr>, init_row (Fin 0)]
      [100, 101, 99] [100, 103, 97]) ! 2 \<noteq> NaN \<and>
   cumulative_return (calculate_returns
      \<lparr>initial_capital = Fin 100000, transaction_cost = Fin (1/1000), slippage = Fin (1/2000)\<rparr>
      [init_row NaN, (init_row (Fin (- 3)))\<lparr>position := 1\<rparr>, init_row (Fin 0)]
      [100, 101, 99] [100, 103, 97]) ! 2 \<noteq> NaN \<and>
   portfolio_value (calculate_returns
      \<lparr>initial_capital = Fin 100000, transaction_cost = Fin (1/1000), slippage = Fin (1/2000)\<rparr>
      [init_row NaN, (init_row (Fin (- 3)))\<lparr>position := 1\<rparr>, init_row (Fin 0)]
      [100, 101, 99] [100, 103, 97]) ! 2 \<noteq> NaN"
proof -
  let ?bt = "\<lparr>initial_capital = Fin 100000, transaction_cost = Fin (1/1000), slippage = Fin (1/2000)\<rparr>"
  let ?sigs = "[init_row NaN, (init_row (Fin (- 3)))\<lparr>position := 1\<rparr>, init_row (Fin 0)]"
  let ?r = "calculate_returns ?bt ?sigs [100, 101, 99] [100, 103, 97]"
  have ne: "?sigs \<noteq> []" by simp
  have t: "(1::nat) \<le> 2 \<and> (2::nat) < length ?sigs" by simp
  have c: "is_fin (transaction_cost ?bt) \<and> is_fin (slippage ?bt) \<and>
      is_fin (initial_capital ?bt) \<and> initial_capital ?bt \<noteq> Fin 0"
    by simp
  have net: "net_return ?r = [NaN, Fin (- (3/2000)), Fin (97/103 - 99/101 - 3/2000)]"
    by (simp add: calculate_returns_def Let_def reindex_def pct_change_def diff_def
        strategy_return_step_def init_row_def fsub_def)
  have gt: "flt (Fin (- 1)) (Fin (- (3/2000))) \<and> flt (Fin (- 1)) (Fin (97/103 - 99/101 - 3/2000))"
    by simp
  have n: "\<forall>k. 1 \<le> k \<and> k \<le> 2 \<longrightarrow>
      is_fin (net_return ?r ! k) \<and> flt (Fin (- 1)) (net_return ?r ! k)"
  proof (intro allI impI)
    fix k :: nat
    assume "1 \<le> k \<and> k \<le> 2"
    then have "k = 1 \<or> k = 2" by arith
    then show "is_fin (net_return ?r ! k) \<and> flt (Fin (- 1)) (net_return ?r ! k)"
      unfolding net using gt by auto
  qed
  from C10_first_row_and_later_rows [OF ne, of ?bt "[100, 101, 99]" "[100, 103, 97]"]
  have first: "portfolio_value ?r ! 0 = NaN"
    and rest: "\<forall>t. 1 \<le> t \<and> t < length ?sigs \<longrightarrow>
      (is_fin (transaction_cost ?bt) \<longrightarrow> transaction_costs ?r ! t \<noteq> NaN) \<and>
      (is_fin (slippage ?bt) \<longrightarrow> slippage_col ?r ! t \<noteq> NaN) \<and>
      (position (?sigs ! (t - 1)) = 0 \<longrightarrow> strategy_return ?r ! t = Fin 0) \<and>
      (is_fin (symbol1_returns ?r ! t) \<and> is_fin (symbol2_returns ?r ! t) \<longrightarrow>
         strategy_return ?r ! t \<noteq> NaN) \<and>
      (is_fin (strategy_return ?r ! t) \<and> is_fin (transaction_costs ?r ! t) \<and>
       is_fin (slippage_col ?r ! t) \<longrightarrow> net_return ?r ! t \<noteq> NaN) \<and>
      ((\<forall>k. 1 \<le> k \<and> k \<le> t \<longrightarrow>
           is_fin (net_return ?r ! k) \<and> flt (Fin (- 1)) (net_return ?r ! k)) \<longrightarrow>
         cumulative_return ?r ! t \<noteq> NaN \<and>
         (is_fin (initial_capital ?bt) \<and> initial_capital ?bt \<noteq> Fin 0 \<longrightarrow>
            portfolio_value ?r ! t \<noteq> NaN))"
    by blast+
  from rest t c n
  have "transaction_costs ?r ! 2 \<noteq> NaN \<and> slippage_col ?r ! 2 \<noteq> NaN \<and>
      cumulative_return ?r ! 2 \<noteq> NaN \<and> portfolio_value ?r ! 2 \<noteq> NaN"
    by blast
  with ne t c net gt first show ?thesis by blast
qed

text \<open>
  The claim C10 as stated fails at rows \<open>t \<ge> 1\<close>: a price of 0 makes the price return
  0/0 - 1 undefined, and with it the strategy return of a held position, the net return, the
  cumulative return and the portfolio value of that row.
\<close>

theorem C10_counterexample:
  "strategy_return (calculate_returns
      \<lparr>initial_capital = Fin 100000, transaction_cost = Fin (1/1000), slippage = Fin (1/2000)\<rparr>
      [init_row NaN, (init_row (Fin (- 3)))\<lparr>position := 1\<rparr>, (init_row (Fin (- 1)))\<lparr>position := 1\<rparr>]
      [100, 101, 99] [100, 0, 0]) ! 2 = NaN \<and>
   net_return (calculate_returns
      \<lparr>initial_capital = Fin 100000, transaction_cost = Fin (1/1000), slippage = Fin (1/2000)\<rparr>
      [init_row NaN, (init_row (Fin (- 3)))\<lparr>position := 1\<rparr>, (init_row (Fin (- 1)))\<lparr>position := 1\<rparr>]
      [100, 101, 99] [100, 0, 0]) ! 2 = NaN \<and>
   cumulative_return (calculate_returns
      \<lparr>initial_capital = Fin 100000, transaction_cost = Fin (1/1000), slippage = Fin (1/2000)\<rparr>
      [init_row NaN, (init_row (Fin (- 3)))\<lparr>position := 1\<rparr>, (init_row (Fin (- 1)))\<lparr>position := 1\<rparr>]
      [100, 101, 99] [100, 0, 0]) ! 2 = NaN \<and>
   portfolio_value (calculate_returns
      \<lparr>initial_capital = Fin 100000, transaction_cost = Fin (1/1000), slippage = Fin (1/2000)\<rparr>
      [init_row NaN, (init_row (Fin (- 3)))\<lparr>position := 1\<rparr>, (init_row (Fin (- 1)))\<lparr>position := 1\<rparr>]
      [100, 101, 99] [100, 0, 0]) ! 2 = NaN"
  by (simp add: calculate_returns_def Let_def reindex_def pct_change_def diff_def cumprod_def
      strategy_return_step_def init_row_def fsub_def signed_inf_def)

lemma fsub_zero [simp]: "fsub x (Fin 0) = x"
  by (cases x) (simp_all add: fsub_def)

text \<open>
  \<^bold>\<open>C8\<close> (as amended). With \<open>transaction_cost = 0\<close> and \<open>slippage = 0\<close>, the net return
  equals the strategy return at every row \<open>t \<ge> 1\<close>. (At the first row the net return is NaN
  and the strategy return is 0.)
\<close>

theorem C8_net_equals_strategy_without_costs:
  assumes "transaction_cost bt = Fin 0" and "slippage bt = Fin 0"
    and "1 \<le> t" and "t < length sigs"
  shows "net_return (calculate_returns bt sigs prices1 prices2) ! t =
         strategy_return (calculate_returns bt sigs prices1 prices2) ! t"
  using assms
  by (simp add: net_return_nth cr_transaction_costs cr_slippage position_change_nth)

theorem C8_net_equals_strategy_without_costs_witness:
  "transaction_cost \<lparr>initial_capital = Fin 100000, transaction_cost = Fin 0, slippage = Fin 0\<rparr> = Fin 0 \<and>
   slippage \<lparr>initial_capital = Fin 100000, transaction_cost = Fin 0, slippage = Fin 0\<rparr> = Fin 0 \<and>
   (1::nat) \<le> 2 \<and>
   (2::nat) < length [init_row NaN, (init_row (Fin (- 3)))\<lparr>position := 1\<rparr>, init_row (Fin 0)] \<and>
   net_return (calculate_returns
      \<lparr>initial_capital = Fin 100000, transaction_cost = Fin 0, slippage = Fin 0\<rparr>
      [init_row NaN, (init_row (Fin (- 3)))\<lparr>position := 1\<rparr>, init_row (Fin 0)]
      [100, 101, 99] [100, 103, 97]) ! 2 = Fin (97/103 - 99/101) \<and>
   strategy_return (calculate_returns
      \<lparr>initial_capital = Fin 100000, transaction_cost = Fin 0, slippage = Fin 0\<rparr>
      [init_row NaN, (init_row (Fin (- 3)))\<lparr>position := 1\<rparr>, init_row (Fin 0)]
      [100, 101, 99] [100, 103, 97]) ! 2 = Fin (97/103 - 99/101)"
proof -
  let ?bt = "\<lparr>initial_capital = Fin 100000, transaction_cost = Fin 0, slippage = Fin 0\<rparr>"
  let ?sigs = "[init_row NaN, (init_row (Fin (- 3)))\<lparr>position := 1\<rparr>, init_row (Fin 0)]"
  let ?r = "calculate_returns ?bt ?sigs [100, 101, 99] [100, 103, 97]"
  have a: "transaction_cost ?bt = Fin 0" and b: "slippage ?bt = Fin 0" by simp_all
  have t1: "(1::nat) \<le> 2" by simp
  have t2: "(2::nat) < length ?sigs" by simp
  have sr: "strategy_return ?r ! 2 = Fin (97/103 - 99/101)"
    by (simp add: calculate_returns_def Let_def reindex_def pct_change_def diff_def
        strategy_return_step_def init_row_def fsub_def)
  from C8_net_equals_strategy_without_costs [OF a b t1 t2, of "[100, 101, 99]" "[100, 103, 97]"] sr
  have "net_return ?r ! 2 = Fin (97/103 - 99/101)" by simp
  with a b t1 t2 sr show ?thesis by blast
qed

text \<open>
  The claim C8 as stated, for all rows, fails at the first row of any backtest: there the
  net return is NaN and the strategy return is 0.
\<close>

theorem C8_counterexample:
  "net_return (calculate_returns \<lparr>initial_capital = Fin 100000, transaction_cost = Fin 0, slippage = Fin 0\<rparr>
      [init_row NaN, init_row (Fin (- 3))] [100, 101] [100, 103]) ! 0 \<noteq>
   strategy_return (calculate_returns \<lparr>initial_capital = Fin 100000, transaction_cost = Fin 0, slippage = Fin 0\<rparr>
      [init_row NaN, init_row (Fin (- 3))] [100, 101] [100, 103]) ! 0"
  by (simp add: net_return_0 strategy_return_nth)

section \<open>Properties of the performance metrics\<close>

lemma exact_lib_simps [simp]:
  "f_sub exact_lib = fsub" "f_mul exact_lib = fmul" "f_div exact_lib = fdiv"
  "f_sqrt exact_lib = fsqrt" "s_mean exact_lib = mean_skipna" "s_std exact_lib = std_skipna"
  by (simp_all add: exact_lib_def)

subsection \<open>The Sortino ratio\<close>

lemma negative_part_empty: "(negative_part xs = []) = no_negative xs"
  by (auto simp: negative_part_def no_negative_def filter_empty_conv)

lemma sortino_empty:
  "calculate_sortino_ratio lib [] risk_free_rate periods_per_year = Inr (Fin 0)"
  unfolding calculate_sortino_ratio_def by simp

lemma sortino_zero_periods:
  "returns \<noteq> [] \<Longrightarrow> calculate_sortino_ratio lib returns risk_free_rate 0 = Inl ZeroDivisionError"
  unfolding calculate_sortino_ratio_def by simp

lemma sortino_unfold:
  assumes "returns \<noteq> []" and "periods_per_year \<noteq> 0"
  shows "calculate_sortino_ratio lib returns risk_free_rate periods_per_year =
     Inr (if negative_part (excess lib returns risk_free_rate periods_per_year) = [] \<or>
             feq (s_std lib (negative_part (excess lib returns risk_free_rate periods_per_year)))
                 (Fin 0)
          then sortino_sentinel lib (excess lib returns risk_free_rate periods_per_year)
          else sortino_formula lib (excess lib returns risk_free_rate periods_per_year)
                 periods_per_year)"
proof -
  have len: "(length returns = 0) = False" using assms(1) by simp
  have per: "(periods_per_year = 0) = False" using assms(2) by simp
  show ?thesis
    unfolding calculate_sortino_ratio_def excess_def negative_part_def sortino_sentinel_def
      sortino_formula_def Let_def len per
    by (simp only: if_False length_0_conv if_distrib [of Inr])
qed

text \<open>
  \<^bold>\<open>C7\<close> (as amended). Whatever the rounding of the operations: for an empty column
  \<open>calculate_sortino_ratio\<close> returns 0, and for a non-empty column with 0 periods per year
  it raises \<open>ZeroDivisionError\<close>; in every other case it returns the sentinel (+infinity if
  the mean excess return is positive, else 0) when there are no negative excess returns or
  the computed standard deviation of the negative excess returns equals 0, and otherwise
  \<open>sqrt(periods_per_year) * mean(excess returns) / std(negative excess returns)\<close>, the
  denominator being the standard deviation of only the negative excess returns.
\<close>

theorem C7_sortino_sentinel_or_formula:
  "calculate_sortino_ratio lib returns risk_free_rate periods_per_year =
    (if returns = [] then Inr (Fin 0)
     else if periods_per_year = 0 then Inl ZeroDivisionError
     else Inr (if no_negative (excess lib returns risk_free_rate periods_per_year) \<or>
                  feq (s_std lib
                         (negative_part (excess lib returns risk_free_rate periods_per_year)))
                      (Fin 0)
               then sortino_sentinel lib (excess lib returns risk_free_rate periods_per_year)
               else sortino_formula lib (excess lib returns risk_free_rate periods_per_year)
                      periods_per_year))"
proof -
  consider (empty) "returns = []" | (zero) "returns \<noteq> []" "periods_per_year = 0"
    | (run) "returns \<noteq> []" "periods_per_year \<noteq> 0"
    by blast
  then show ?thesis
  proof cases
    case empty
    then show ?thesis by (simp add: sortino_empty)
  next
    case zero
    then show ?thesis by (simp add: sortino_zero_periods)
  next
    case run
    then show ?thesis by (simp add: sortino_unfold negative_part_empty)
  qed
qed

lemma zero_std_excess:
  "excess exact_lib [Fin (- (1/2)), Fin (- (1/2))] 0 252 = [Fin (- (1/2)), Fin (- (1/2))]"
  by (simp add: excess_def fsub_def)

lemma zero_std_negative:
  "negative_part [Fin (- (1/2)), Fin (- (1/2))] = [Fin (- (1/2)), Fin (- (1/2))]"
  by (simp add: negative_part_def)

lemma zero_std_std: "std_skipna [Fin (- (1/2)), Fin (- (1/2))] = Fin 0"
  by (simp add: std_skipna_def nanvals_def fsum_def fsub_def Let_def)

lemma zero_std_mean: "mean_skipna [Fin (- (1/2)), Fin (- (1/2))] = Fin (- (1/2))"
  by (simp add: mean_skipna_def nanvals_def fsum_def Let_def)

lemma zero_std_formula: "sortino_formula exact_lib [Fin (- (1/2)), Fin (- (1/2))] 252 = NInf"
  unfolding sortino_formula_def exact_lib_simps zero_std_negative zero_std_std zero_std_mean
  by (simp add: signed_inf_def zero_less_mult_iff)

text \<open>
  The claim C7 as stated fails where the negative excess returns have a computed standard
  deviation of 0: for the returns -0.5, -0.5 (risk-free rate 0, every intermediate result a
  double) there are negative excess returns and the sentinel 0 is returned, while the
  formula gives \<open>-infinity\<close>.
\<close>

theorem C7_counterexample:
  "calculate_sortino_ratio exact_lib [Fin (- (1/2)), Fin (- (1/2))] 0 252 = Inr (Fin 0) \<and>
   \<not> no_negative (excess exact_lib [Fin (- (1/2)), Fin (- (1/2))] 0 252) \<and>
   sortino_formula exact_lib (excess exact_lib [Fin (- (1/2)), Fin (- (1/2))] 0 252) 252 = NInf"
proof -
  have a: "calculate_sortino_ratio exact_lib [Fin (- (1/2)), Fin (- (1/2))] 0 252 = Inr (Fin 0)"
    by (simp add: sortino_unfold zero_std_excess zero_std_negative zero_std_std zero_std_mean
        feq_def sortino_sentinel_def fgt_def)
  have b: "\<not> no_negative (excess exact_lib [Fin (- (1/2)), Fin (- (1/2))] 0 252)"
    unfolding zero_std_excess by (simp add: no_negative_def)
  have c: "sortino_formula exact_lib (excess exact_lib [Fin (- (1/2)), Fin (- (1/2))] 0 252) 252 = NInf"
    unfolding zero_std_excess by (rule zero_std_formula)
  from a b c show ?thesis by blast
qed

lemma sortino_example_excess:
  "excess exact_lib [Fin 2, Fin (- 1), Fin (- 2), Fin (- 3)] 0 4 =
     [Fin 2, Fin (- 1), Fin (- 2), Fin (- 3)]"
  by (simp add: excess_def fsub_def)

lemma sortino_example_negative:
  "negative_part [Fin 2, Fin (- 1), Fin (- 2), Fin (- 3)] = [Fin (- 1), Fin (- 2), Fin (- 3)]"
  by (simp add: negative_part_def)

lemma sortino_example_std: "std_skipna [Fin (- 1), Fin (- 2), Fin (- 3)] = Fin 1"
  by (simp add: std_skipna_def nanvals_def fsum_def fsub_def Let_def)

lemma sortino_example_mean: "mean_skipna [Fin 2, Fin (- 1), Fin (- 2), Fin (- 3)] = Fin (- 1)"
  by (simp add: mean_skipna_def nanvals_def fsum_def Let_def)

text \<open>
  The returns 2, -1, -2, -3 with four periods per year have the negative excess returns
  -1, -2, -3 of standard deviation 1 and give \<open>sqrt 4 * (-1) / 1 = -2\<close>; the returns 1, 3
  have no negative excess return and a positive mean and give +infinity.
\<close>

theorem C7_sortino_sentinel_or_formula_witness:
  "\<not> no_negative (excess exact_lib [Fin 2, Fin (- 1), Fin (- 2), Fin (- 3)] 0 4) \<and>
   \<not> feq (s_std exact_lib
            (negative_part (excess exact_lib [Fin 2, Fin (- 1), Fin (- 2), Fin (- 3)] 0 4)))
          (Fin 0) \<and>
   calculate_sortino_ratio exact_lib [Fin 2, Fin (- 1), Fin (- 2), Fin (- 3)] 0 4 =
     Inr (Fin (- 2)) \<and>
   no_negative (excess exact_lib [Fin 1, Fin 3] 0 4) \<and>
   calculate_sortino_ratio exact_lib [Fin 1, Fin 3] 0 4 = Inr PInf"
proof -
  have a: "\<not> no_negative (excess exact_lib [Fin 2, Fin (- 1), Fin (- 2), Fin (- 3)] 0 4)"
    unfolding sortino_example_excess by (simp add: no_negative_def)
  have b: "\<not> feq (s_std exact_lib
            (negative_part (excess exact_lib [Fin 2, Fin (- 1), Fin (- 2), Fin (- 3)] 0 4)))
          (Fin 0)"
    unfolding sortino_example_excess sortino_example_negative exact_lib_simps sortino_example_std
    by (simp add: feq_def)
  have f: "sortino_formula exact_lib (excess exact_lib [Fin 2, Fin (- 1), Fin (- 2), Fin (- 3)] 0 4) 4 =
      Fin (- 2)"
    unfolding sortino_example_excess sortino_formula_def sortino_example_negative exact_lib_simps
      sortino_example_std sortino_example_mean
    by simp
  have c: "calculate_sortino_ratio exact_lib [Fin 2, Fin (- 1), Fin (- 2), Fin (- 3)] 0 4 =
      Inr (Fin (- 2))"
    using C7_sortino_sentinel_or_formula [of exact_lib "[Fin 2, Fin (- 1), Fin (- 2), Fin (- 3)]" 0 4] a b f by simp
  have e: "excess exact_lib [Fin 1, Fin 3] 0 4 = [Fin 1, Fin 3]"
    by (simp add: excess_def fsub_def)
  have d: "no_negative (excess exact_lib [Fin 1, Fin 3] 0 4)"
    unfolding e by (simp add: no_negative_def)
  have s: "sortino_sentinel exact_lib (excess exact_lib [Fin 1, Fin 3] 0 4) = PInf"
    unfolding e by (simp add: sortino_sentinel_def mean_skipna_def nanvals_def fsum_def fgt_def)
  have g: "calculate_sortino_ratio exact_lib [Fin 1, Fin 3] 0 4 = Inr PInf"
    using C7_sortino_sentinel_or_formula [of exact_lib "[Fin 1, Fin 3]" 0 4] d s by simp
  from a b c d g show ?thesis by blast
qed

subsection \<open>The order of the floating-point values and the reductions\<close>

lemma flt_trans: "flt x y \<Longrightarrow> flt y z \<Longrightarrow> flt x z"
  by (cases x; cases y; cases z) simp_all

lemma flt_asym: "flt x y \<Longrightarrow> \<not> flt y x"
  by (cases x; cases y) simp_all

lemma flt_total: "x \<noteq> NaN \<Longrightarrow> y \<noteq> NaN \<Longrightarrow> flt x y \<or> x = y \<or> flt y x"
  by (cases x; cases y) auto

lemma flt_not_NaN: "flt x y \<Longrightarrow> x \<noteq> NaN \<and> y \<noteq> NaN"
  by (cases x; cases y) simp_all

lemma fmin_cases: "fmin m v = m \<or> fmin m v = v"
  by (simp add: fmin_def)

lemma fmax_cases: "fmax m v = m \<or> fmax m v = v"
  by (simp add: fmax_def)

lemma fmin_le: "m \<noteq> NaN \<Longrightarrow> v \<noteq> NaN \<Longrightarrow> \<not> flt m (fmin m v) \<and> \<not> flt v (fmin m v)"
  by (auto simp: fmin_def dest: flt_asym)

lemma fmax_ge: "m \<noteq> NaN \<Longrightarrow> v \<noteq> NaN \<Longrightarrow> \<not> flt (fmax m v) m \<and> \<not> flt (fmax m v) v"
  by (auto simp: fmax_def dest: flt_asym)

lemma not_flt_trans:
  "x \<noteq> NaN \<Longrightarrow> y \<noteq> NaN \<Longrightarrow> z \<noteq> NaN \<Longrightarrow> \<not> flt y x \<Longrightarrow> \<not> flt z y \<Longrightarrow> \<not> flt z x"
  by (cases x; cases y; cases z) simp_all

lemma fold_fmin:
  "m \<noteq> NaN \<Longrightarrow> \<forall>x\<in>set vs. x \<noteq> NaN \<Longrightarrow>
   fold (\<lambda>x m. fmin m x) vs m \<in> set (m # vs) \<and>
   (\<forall>x\<in>set (m # vs). \<not> flt x (fold (\<lambda>x m. fmin m x) vs m))"
proof (induction vs arbitrary: m)
  case Nil
  then show ?case by simp
next
  case (Cons v vs)
  let ?r = "fold (\<lambda>x m. fmin m x) vs (fmin m v)"
  have v: "v \<noteq> NaN" using Cons.prems by simp
  have mv: "fmin m v \<noteq> NaN" using fmin_cases [of m v] v Cons.prems(1) by auto
  from Cons.IH [OF mv] Cons.prems(2)
  have r: "?r \<in> set (fmin m v # vs)" and le: "\<forall>x\<in>set (fmin m v # vs). \<not> flt x ?r"
    by auto
  have rn: "?r \<noteq> NaN" using r mv Cons.prems(2) by auto
  have a: "\<not> flt (fmin m v) ?r" using le by simp
  have "\<not> flt m ?r"
    using not_flt_trans [OF rn mv Cons.prems(1) a] fmin_le [OF Cons.prems(1) v] by blast
  moreover have "\<not> flt v ?r"
    using not_flt_trans [OF rn mv v a] fmin_le [OF Cons.prems(1) v] by blast
  moreover have "?r \<in> set (m # v # vs)" using r fmin_cases [of m v] by auto
  ultimately show ?case using le by simp
qed

lemma fold_fmax:
  "m \<noteq> NaN \<Longrightarrow> \<forall>x\<in>set vs. x \<noteq> NaN \<Longrightarrow>
   fold (\<lambda>x m. fmax m x) vs m \<in> set (m # vs) \<and>
   (\<forall>x\<in>set (m # vs). \<not> flt (fold (\<lambda>x m. fmax m x) vs m) x)"
proof (induction vs arbitrary: m)
  case Nil
  then show ?case by simp
next
  case (Cons v vs)
  let ?r = "fold (\<lambda>x m. fmax m x) vs (fmax m v)"
  have v: "v \<noteq> NaN" using Cons.prems by simp
  have mv: "fmax m v \<noteq> NaN" using fmax_cases [of m v] v Cons.prems(1) by auto
  from Cons.IH [OF mv] Cons.prems(2)
  have r: "?r \<in> set (fmax m v # vs)" and le: "\<forall>x\<in>set (fmax m v # vs). \<not> flt ?r x"
    by auto
  have rn: "?r \<noteq> NaN" using r mv Cons.prems(2) by auto
  have a: "\<not> flt ?r (fmax m v)" using le by simp
  have "\<not> flt ?r m"
    using not_flt_trans [OF Cons.prems(1) mv rn _ a] fmax_ge [OF Cons.prems(1) v] by blast
  moreover have "\<not> flt ?r v"
    using not_flt_trans [OF v mv rn _ a] fmax_ge [OF Cons.prems(1) v] by blast
  moreover have "?r \<in> set (m # v # vs)" using r fmax_cases [of m v] by auto
  ultimately show ?case using le by simp
qed

lemma set_nanvals: "set (nanvals xs) = {x \<in> set xs. x \<noteq> NaN}"
  by (simp add: nanvals_def)

lemma nanmin_props:
  assumes "nanvals xs \<noteq> []"
  shows "nanmin xs \<in> set xs" and "nanmin xs \<noteq> NaN"
    and "\<forall>x\<in>set xs. x \<noteq> NaN \<longrightarrow> \<not> flt x (nanmin xs)"
proof -
  from assms obtain v vs where vs: "nanvals xs = v # vs" by (auto simp: neq_Nil_conv)
  have nn: "v \<noteq> NaN" "\<forall>x\<in>set vs. x \<noteq> NaN"
    using set_nanvals [of xs] unfolding vs by auto
  have eq: "nanmin xs = fold (\<lambda>x m. fmin m x) vs v" by (simp add: nanmin_def vs)
  from fold_fmin [OF nn] have
    a: "nanmin xs \<in> set (nanvals xs)" and b: "\<forall>x\<in>set (nanvals xs). \<not> flt x (nanmin xs)"
    unfolding eq vs by auto
  show "nanmin xs \<in> set xs" "nanmin xs \<noteq> NaN" using a by (auto simp: set_nanvals)
  show "\<forall>x\<in>set xs. x \<noteq> NaN \<longrightarrow> \<not> flt x (nanmin xs)" using b by (auto simp: set_nanvals)
qed

lemma nanmax_props:
  assumes "nanvals xs \<noteq> []"
  shows "nanmax xs \<in> set xs" and "nanmax xs \<noteq> NaN"
    and "\<forall>x\<in>set xs. x \<noteq> NaN \<longrightarrow> \<not> flt (nanmax xs) x"
proof -
  from assms obtain v vs where vs: "nanvals xs = v # vs" by (auto simp: neq_Nil_conv)
  have nn: "v \<noteq> NaN" "\<forall>x\<in>set vs. x \<noteq> NaN"
    using set_nanvals [of xs] unfolding vs by auto
  have eq: "nanmax xs = fold (\<lambda>x m. fmax m x) vs v" by (simp add: nanmax_def vs)
  from fold_fmax [OF nn] have
    a: "nanmax xs \<in> set (nanvals xs)" and b: "\<forall>x\<in>set (nanvals xs). \<not> flt (nanmax xs) x"
    unfolding eq vs by auto
  show "nanmax xs \<in> set xs" "nanmax xs \<noteq> NaN" using a by (auto simp: set_nanvals)
  show "\<forall>x\<in>set xs. x \<noteq> NaN \<longrightarrow> \<not> flt (nanmax xs) x" using b by (auto simp: set_nanvals)
qed

lemma first_index_le: "first_index P xs \<le> length xs"
  by (simp add: first_index_def length_takeWhile_le)

lemma first_index_less: "\<exists>x\<in>set xs. P x \<Longrightarrow> first_index P xs < length xs"
  unfolding first_index_def by (induction xs) auto

lemma first_index_holds: "first_index P xs < length xs \<Longrightarrow> P (xs ! first_index P xs)"
  unfolding first_index_def using nth_length_takeWhile [of "\<lambda>x. \<not> P x" xs] by simp

lemma first_index_least: "i < first_index P xs \<Longrightarrow> \<not> P (xs ! i)"
  unfolding first_index_def by (induction xs arbitrary: i) (auto simp: nth_Cons' split: if_splits)

lemma list_ex_drop:
  "list_ex P (drop k xs) = (\<exists>t. k \<le> t \<and> t < length xs \<and> P (xs ! t))"
proof
  assume "list_ex P (drop k xs)"
  then obtain i where i: "i < length (drop k xs)" "P (drop k xs ! i)"
    by (auto simp: list_ex_iff in_set_conv_nth)
  then have "k \<le> k + i \<and> k + i < length xs \<and> P (xs ! (k + i))" by auto
  then show "\<exists>t. k \<le> t \<and> t < length xs \<and> P (xs ! t)" by blast
next
  assume "\<exists>t. k \<le> t \<and> t < length xs \<and> P (xs ! t)"
  then obtain t where t: "k \<le> t" "t < length xs" "P (xs ! t)" by blast
  then have "t - k < length (drop k xs)" "drop k xs ! (t - k) = xs ! t" by auto
  with t(3) show "list_ex P (drop k xs)"
    unfolding list_ex_iff by (metis nth_mem)
qed

lemma first_index_drop:
  assumes "list_ex P (drop k xs)"
  shows "k \<le> k + first_index P (drop k xs)"
    and "k + first_index P (drop k xs) < length xs"
    and "P (xs ! (k + first_index P (drop k xs)))"
    and "\<forall>t. k \<le> t \<and> t < k + first_index P (drop k xs) \<longrightarrow> \<not> P (xs ! t)"
proof -
  let ?i = "first_index P (drop k xs)"
  have ex: "\<exists>x\<in>set (drop k xs). P x" using assms by (simp add: list_ex_iff)
  have lt: "?i < length (drop k xs)" by (rule first_index_less [OF ex])
  show "k \<le> k + ?i" by simp
  show b: "k + ?i < length xs" using lt by simp
  show "P (xs ! (k + ?i))" using first_index_holds [OF lt] b by simp
  show "\<forall>t. k \<le> t \<and> t < k + ?i \<longrightarrow> \<not> P (xs ! t)"
  proof (intro allI impI)
    fix t assume t: "k \<le> t \<and> t < k + ?i"
    then have "t - k < ?i" by arith
    from first_index_least [OF this] have "\<not> P (drop k xs ! (t - k))" .
    moreover have "drop k xs ! (t - k) = xs ! t" using t b by simp
    ultimately show "\<not> P (xs ! t)" by simp
  qed
qed

lemma recovery_correct:
  assumes "tr < length pv"
  shows "recovery_ok pv tr pk
     (if int tr < int (length pv) - 1 then
        (if list_ex (\<lambda>v. fge v (pv ! pk)) (drop tr pv)
         then Some (tr + first_index (\<lambda>v. fge v (pv ! pk)) (drop tr pv))
         else None)
      else None)"
proof -
  consider (last) "\<not> int tr < int (length pv) - 1"
    | (found) "int tr < int (length pv) - 1" "list_ex (\<lambda>v. fge v (pv ! pk)) (drop tr pv)"
    | (none) "int tr < int (length pv) - 1" "\<not> list_ex (\<lambda>v. fge v (pv ! pk)) (drop tr pv)"
    by blast
  then show ?thesis
  proof cases
    case last
    then have "Suc tr = length pv" using assms by arith
    with last show ?thesis by (simp add: recovery_ok_def)
  next
    case found
    from found(1) have "Suc tr < length pv" by arith
    with found first_index_drop [OF found(2)] show ?thesis
      by (simp add: recovery_ok_def)
  next
    case none
    from none(2) have "\<forall>t. tr \<le> t \<and> t < length pv \<longrightarrow> \<not> fge (pv ! t) (pv ! pk)"
      by (simp add: list_ex_drop)
    with none show ?thesis by (simp add: recovery_ok_def)
  qed
qed

subsection \<open>The maximum drawdown\<close>

lemma length_expanding_max [simp]: "length (expanding_max xs) = length xs"
  by (simp add: expanding_max_def)

lemma length_drawdown_col [simp]: "length (drawdown_col lib pv) = length pv"
  by (simp add: drawdown_col_def)

lemma inf_as_missing_id: "finite_or_missing xs \<Longrightarrow> map inf_as_missing xs = xs"
  by (induction xs) (auto simp: finite_or_missing_def inf_as_missing_def)

lemma finite_or_missing_take: "finite_or_missing xs \<Longrightarrow> finite_or_missing (take k xs)"
  by (auto simp: finite_or_missing_def list_all_iff dest: in_set_takeD)

lemma drawdown_col_nth:
  "finite_or_missing pv \<Longrightarrow> t < length pv \<Longrightarrow> drawdown_col lib pv ! t = drawdown_at lib pv t"
  by (simp add: drawdown_col_def drawdown_at_def expanding_max_def
      inf_as_missing_id [OF finite_or_missing_take])

lemma nanvals_nonempty: "(nanvals xs \<noteq> []) = (\<exists>t<length xs. xs ! t \<noteq> NaN)"
  by (auto simp: nanvals_def filter_empty_conv in_set_conv_nth intro: nth_mem)

lemma idxmin_Inr: "nanvals xs \<noteq> [] \<Longrightarrow> idxmin xs = Inr (first_index (\<lambda>x. x = nanmin xs) xs)"
  by (auto simp: idxmin_def nanvals_def)

lemma idxmax_Inr: "nanvals xs \<noteq> [] \<Longrightarrow> idxmax xs = Inr (first_index (\<lambda>x. x = nanmax xs) xs)"
  by (auto simp: idxmax_def nanvals_def)

lemma idxmax_Inl: "nanvals xs = [] \<Longrightarrow> \<exists>e. idxmax xs = Inl e"
  by (simp add: idxmax_def)

lemma calculate_max_drawdown_Inr:
  assumes "nanvals (drawdown_col lib pv) \<noteq> []"
  defines "tr \<equiv> first_index (\<lambda>x. x = nanmin (drawdown_col lib pv)) (drawdown_col lib pv)"
  assumes "nanvals (slice_to idx tr pv) \<noteq> []"
  defines "pk \<equiv> first_index (\<lambda>x. x = nanmax (slice_to idx tr pv)) (slice_to idx tr pv)"
  shows "calculate_max_drawdown lib idx pv =
     Inr \<lparr>max_drawdown = nanmin (drawdown_col lib pv), peak_date = pk, trough_date = tr,
          recovery_date =
            (if int tr < int (length pv) - 1 then
               (if list_ex (\<lambda>v. fge v (pv ! pk)) (drop tr pv)
                then Some (tr + first_index (\<lambda>v. fge v (pv ! pk)) (drop tr pv))
                else None)
             else None),
          peak_value = pv ! pk, trough_value = pv ! tr\<rparr>"
  unfolding calculate_max_drawdown_def drawdown_col_def [symmetric] Let_def
    idxmin_Inr [OF assms(1)] tr_def [symmetric]
  using idxmax_Inr [OF assms(3)]
  by (simp add: pk_def)

lemma calculate_max_drawdown_raises:
  assumes "nanvals (drawdown_col lib pv) \<noteq> []"
    and "nanvals (slice_to idx
           (first_index (\<lambda>x. x = nanmin (drawdown_col lib pv)) (drawdown_col lib pv)) pv) = []"
  shows "\<exists>e. calculate_max_drawdown lib idx pv = Inl e"
  unfolding calculate_max_drawdown_def drawdown_col_def [symmetric] Let_def
    idxmin_Inr [OF assms(1)]
  using idxmax_Inl [OF assms(2)] by auto

lemma trough_props:
  assumes "finite_or_missing pv" and "drawdown_ops lib"
    and "nanvals (drawdown_col lib pv) \<noteq> []"
  defines "md \<equiv> nanmin (drawdown_col lib pv)"
  defines "tr \<equiv> first_index (\<lambda>x. x = md) (drawdown_col lib pv)"
  shows "tr < length pv" and "drawdown_at lib pv tr = md" and "md \<noteq> NaN"
    and "\<forall>t<length pv. drawdown_at lib pv t \<noteq> NaN \<longrightarrow> \<not> flt (drawdown_at lib pv t) md"
    and "\<forall>t<tr. drawdown_at lib pv t \<noteq> md"
    and "pv ! tr \<noteq> NaN"
proof -
  note mp = nanmin_props [OF assms(3)]
  note nth = drawdown_col_nth [OF assms(1)]
  have ex: "\<exists>x\<in>set (drawdown_col lib pv). x = md" using mp(1) by (simp add: md_def)
  from first_index_less [OF ex] show lt: "tr < length pv" by (simp add: tr_def)
  then have lt': "first_index (\<lambda>x. x = md) (drawdown_col lib pv) < length (drawdown_col lib pv)"
    by (simp add: tr_def)
  from first_index_holds [OF lt'] show eq: "drawdown_at lib pv tr = md"
    using lt by (simp add: tr_def [symmetric] nth)
  show nn: "md \<noteq> NaN" using mp(2) by (simp add: md_def)
  show "\<forall>t<length pv. drawdown_at lib pv t \<noteq> NaN \<longrightarrow> \<not> flt (drawdown_at lib pv t) md"
  proof (intro allI impI)
    fix t assume t: "t < length pv" "drawdown_at lib pv t \<noteq> NaN"
    then have "drawdown_at lib pv t \<in> set (drawdown_col lib pv)"
      using nth_mem [of t "drawdown_col lib pv"] by (simp add: nth)
    with mp(3) t(2) show "\<not> flt (drawdown_at lib pv t) md" by (simp add: md_def)
  qed
  show "\<forall>t<tr. drawdown_at lib pv t \<noteq> md"
  proof (intro allI impI)
    fix t assume t: "t < tr"
    from first_index_least [of t "\<lambda>x. x = md" "drawdown_col lib pv"] t
    have "drawdown_col lib pv ! t \<noteq> md" by (simp add: tr_def)
    then show "drawdown_at lib pv t \<noteq> md" using t lt by (simp add: nth)
  qed
  show "pv ! tr \<noteq> NaN"
  proof
    assume "pv ! tr = NaN"
    then have "drawdown_at lib pv tr = NaN"
      using assms(2) by (simp add: drawdown_at_def drawdown_ops_def)
    with eq nn show False by simp
  qed
qed

lemma peak_props:
  assumes "tr < length pv" and "pv ! tr \<noteq> NaN"
  defines "mx \<equiv> nanmax (take (Suc tr) pv)"
  defines "pk \<equiv> first_index (\<lambda>x. x = mx) (take (Suc tr) pv)"
  shows "nanvals (take (Suc tr) pv) \<noteq> []" and "pk \<le> tr" and "pv ! pk = mx" and "pv ! pk \<noteq> NaN"
    and "\<forall>t\<le>tr. pv ! t \<noteq> NaN \<longrightarrow> \<not> flt (pv ! pk) (pv ! t)"
    and "\<forall>t<pk. pv ! t \<noteq> NaN \<longrightarrow> flt (pv ! t) (pv ! pk)"
proof -
  have len: "length (take (Suc tr) pv) = Suc tr" using assms(1) by simp
  have "take (Suc tr) pv ! tr \<noteq> NaN" using assms(2) by simp
  then show ne: "nanvals (take (Suc tr) pv) \<noteq> []"
    unfolding nanvals_nonempty len by blast
  note mp = nanmax_props [OF ne]
  have ex: "\<exists>x\<in>set (take (Suc tr) pv). x = mx" using mp(1) by (simp add: mx_def)
  from first_index_less [OF ex] have lt: "pk < Suc tr" by (simp add: pk_def len)
  then show "pk \<le> tr" by simp
  have lt': "first_index (\<lambda>x. x = mx) (take (Suc tr) pv) < length (take (Suc tr) pv)"
    unfolding len using lt by (simp add: pk_def)
  from first_index_holds [OF lt'] show eq: "pv ! pk = mx"
    using lt by (simp add: pk_def [symmetric])
  show nn: "pv ! pk \<noteq> NaN" using eq mp(2) by (simp add: mx_def)
  show "\<forall>t\<le>tr. pv ! t \<noteq> NaN \<longrightarrow> \<not> flt (pv ! pk) (pv ! t)"
  proof (intro allI impI)
    fix t assume t: "t \<le> tr" "pv ! t \<noteq> NaN"
    then have "t < length (take (Suc tr) pv)" using len by simp
    from nth_mem [OF this] t(1) have "pv ! t \<in> set (take (Suc tr) pv)" by simp
    with mp(3) t(2) show "\<not> flt (pv ! pk) (pv ! t)" by (simp add: eq mx_def)
  qed
  then have ge: "\<forall>t\<le>tr. pv ! t \<noteq> NaN \<longrightarrow> \<not> flt (pv ! pk) (pv ! t)" .
  show "\<forall>t<pk. pv ! t \<noteq> NaN \<longrightarrow> flt (pv ! t) (pv ! pk)"
  proof (intro allI impI)
    fix t assume t: "t < pk" "pv ! t \<noteq> NaN"
    from first_index_least [of t "\<lambda>x. x = mx" "take (Suc tr) pv"] t(1) lt
    have "pv ! t \<noteq> pv ! pk" by (simp add: pk_def [symmetric] eq)
    moreover have "\<not> flt (pv ! pk) (pv ! t)" using ge t lt by simp
    ultimately show "flt (pv ! t) (pv ! pk)" using flt_total [OF t(2) nn] by blast
  qed
qed

lemma peak_before_trough:
  assumes "drawdown_ops lib" and "flt (drawdown_at lib pv tr) (Fin 0)"
    and "pv ! pk = nanmax (take (Suc tr) pv)" and "pk \<le> tr"
  shows "pk < tr"
proof -
  have "pk \<noteq> tr"
  proof
    assume "pk = tr"
    with assms(3) have "drawdown_at lib pv tr = f_div lib (f_sub lib (pv ! tr) (pv ! tr)) (pv ! tr)"
      by (simp add: drawdown_at_def)
    with assms(1,2) show False by (simp add: drawdown_ops_def)
  qed
  with assms(4) show ?thesis by simp
qed

lemma first_index_take:
  "first_index P xs < k \<Longrightarrow> first_index P (take k xs) = first_index P xs"
  unfolding first_index_def
proof (induction xs arbitrary: k)
  case Nil
  then show ?case by simp
next
  case (Cons x xs)
  then show ?case by (cases k) (auto split: if_splits)
qed

lemma peak_without_trough:
  assumes "tr < length pv" and "nanvals (take (Suc tr) pv) \<noteq> []"
    and "first_index (\<lambda>x. x = nanmax (take (Suc tr) pv)) (take (Suc tr) pv) < tr"
  shows "nanvals (take tr pv) \<noteq> []"
    and "nanmax (take tr pv) = nanmax (take (Suc tr) pv)"
    and "first_index (\<lambda>x. x = nanmax (take tr pv)) (take tr pv) =
         first_index (\<lambda>x. x = nanmax (take (Suc tr) pv)) (take (Suc tr) pv)"
proof -
  let ?mx = "nanmax (take (Suc tr) pv)"
  let ?pk = "first_index (\<lambda>x. x = ?mx) (take (Suc tr) pv)"
  note mp = nanmax_props [OF assms(2)]
  have tk: "take tr (take (Suc tr) pv) = take tr pv" by (simp add: min_def)
  have pk_eq: "first_index (\<lambda>x. x = ?mx) (take tr pv) = ?pk"
    using first_index_take [OF assms(3)] by (simp add: tk)
  have lt: "?pk < length (take tr pv)" using assms(1,3) by simp
  then have lt2: "first_index (\<lambda>x. x = ?mx) (take tr pv) < length (take tr pv)"
    by (simp only: pk_eq)
  from first_index_holds [OF lt2] have at: "take tr pv ! ?pk = ?mx" by (simp only: pk_eq)
  then have mem: "?mx \<in> set (take tr pv)" using nth_mem [OF lt] by simp
  then show ne: "nanvals (take tr pv) \<noteq> []"
    using mp(2) by (auto simp: nanvals_def filter_empty_conv)
  note mq = nanmax_props [OF ne]
  have sub: "nanmax (take tr pv) \<in> set (take (Suc tr) pv)"
    using mq(1) set_take_subset_set_take [of tr "Suc tr" pv] by auto
  have "\<not> flt ?mx (nanmax (take tr pv))" using mp(3) sub mq(2) by blast
  moreover have "\<not> flt (nanmax (take tr pv)) ?mx" using mq(3) mem mp(2) by blast
  ultimately show eq: "nanmax (take tr pv) = ?mx"
    using flt_total [OF mq(2) mp(2)] by blast
  show "first_index (\<lambda>x. x = nanmax (take tr pv)) (take tr pv) = ?pk"
    by (simp only: eq pk_eq)
qed

lemma fdiv_fsub_NaN: "fdiv (fsub NaN m) m = NaN"
  by (cases m) (simp_all add: fsub_def)

lemma fdiv_fsub_self: "\<not> flt (fdiv (fsub v v) v) (Fin 0)"
  by (cases v) (simp_all add: fsub_def signed_inf_def)

lemma drawdown_ops_exact: "drawdown_ops exact_lib"
  by (simp add: drawdown_ops_def fdiv_fsub_NaN fdiv_fsub_self)

text \<open>
  \<^bold>\<open>C5\<close> (as amended). Let the column hold finite values, some of which may be missing,
  have at least one defined drawdown, and be indexed by timestamps. Then, whatever the
  rounding of the subtraction and the division (as long as the drawdown of a missing value
  is NaN and \<open>(v - v) / v\<close> is not negative), \<open>calculate_max_drawdown\<close> returns: as
  \<open>max_drawdown\<close> the most negative defined value of
  \<open>(value[t] - running_max[t]) / running_max[t]\<close>, the trough being the first row with that
  value; as \<open>peak_date\<close> the last all-time high at or before the trough (the first row that
  attains the maximum of the rows up to and including the trough: every earlier defined
  value is strictly smaller); and as \<open>recovery_date\<close>, when the trough is not the last row,
  the first row at or after the trough whose value is at least the peak value, and none when
  there is no such row or the trough is the last row. Whenever \<open>max_drawdown\<close> is negative
  the peak is strictly before the trough, and the call returns the same record on a column
  with the default integer index.
\<close>

theorem C5_max_drawdown:
  assumes "drawdown_ops lib" and "finite_or_missing pv"
    and "\<exists>t<length pv. drawdown_at lib pv t \<noteq> NaN"
  shows "\<exists>d. calculate_max_drawdown lib Timestamps pv = Inr d \<and>
     trough_date d < length pv \<and>
     max_drawdown d = drawdown_at lib pv (trough_date d) \<and> max_drawdown d \<noteq> NaN \<and>
     (\<forall>t<length pv. drawdown_at lib pv t \<noteq> NaN \<longrightarrow>
          \<not> flt (drawdown_at lib pv t) (max_drawdown d)) \<and>
     (\<forall>t<trough_date d. drawdown_at lib pv t \<noteq> max_drawdown d) \<and>
     peak_date d \<le> trough_date d \<and> pv ! peak_date d \<noteq> NaN \<and>
     (\<forall>t\<le>trough_date d. pv ! t \<noteq> NaN \<longrightarrow> \<not> flt (pv ! peak_date d) (pv ! t)) \<and>
     (\<forall>t<peak_date d. pv ! t \<noteq> NaN \<longrightarrow> flt (pv ! t) (pv ! peak_date d)) \<and>
     (flt (max_drawdown d) (Fin 0) \<longrightarrow>
        peak_date d < trough_date d \<and> calculate_max_drawdown lib RangeIndex pv = Inr d) \<and>
     recovery_ok pv (trough_date d) (peak_date d) (recovery_date d) \<and>
     peak_value d = pv ! peak_date d \<and> trough_value d = pv ! trough_date d"
proof -
  have ne: "nanvals (drawdown_col lib pv) \<noteq> []"
    unfolding nanvals_nonempty using assms(3) by (auto simp: drawdown_col_nth [OF assms(2)])
  define tr where "tr = first_index (\<lambda>x. x = nanmin (drawdown_col lib pv)) (drawdown_col lib pv)"
  define pk where "pk = first_index (\<lambda>x. x = nanmax (take (Suc tr) pv)) (take (Suc tr) pv)"
  note tp = trough_props [OF assms(2) assms(1) ne, folded tr_def]
  note pp = peak_props [OF tp(1) tp(6), folded pk_def]
  have ne_ts: "nanvals (slice_to Timestamps tr pv) \<noteq> []"
    using pp(1) by (simp add: slice_to_def)
  have eq: "calculate_max_drawdown lib Timestamps pv =
     Inr \<lparr>max_drawdown = nanmin (drawdown_col lib pv), peak_date = pk, trough_date = tr,
          recovery_date =
            (if int tr < int (length pv) - 1 then
               (if list_ex (\<lambda>v. fge v (pv ! pk)) (drop tr pv)
                then Some (tr + first_index (\<lambda>v. fge v (pv ! pk)) (drop tr pv))
                else None)
             else None),
          peak_value = pv ! pk, trough_value = pv ! tr\<rparr>"
    using calculate_max_drawdown_Inr [OF ne, of Timestamps] ne_ts
    by (simp add: tr_def [symmetric] slice_to_def pk_def [symmetric])
  have bt: "flt (nanmin (drawdown_col lib pv)) (Fin 0) \<longrightarrow> pk < tr"
    using peak_before_trough [OF assms(1), of pv tr pk] pp(2,3) tp(2) by simp
  have ri: "calculate_max_drawdown lib RangeIndex pv = calculate_max_drawdown lib Timestamps pv"
    if neg: "flt (nanmin (drawdown_col lib pv)) (Fin 0)"
  proof -
    from bt neg have lt: "pk < tr" by simp
    note pw = peak_without_trough [OF tp(1) pp(1) lt [unfolded pk_def]]
    have ne_ri: "nanvals (slice_to RangeIndex tr pv) \<noteq> []"
      using pw(1) by (simp add: slice_to_def)
    have pk_ri: "first_index (\<lambda>x. x = nanmax (take tr pv)) (take tr pv) = pk"
      using pw(3) by (simp add: pk_def)
    show ?thesis
      unfolding eq
      using calculate_max_drawdown_Inr [OF ne, of RangeIndex] ne_ri
      by (simp add: tr_def [symmetric] slice_to_def pk_ri)
  qed
  note rc = recovery_correct [OF tp(1), of pk]
  show ?thesis
    unfolding eq using tp(1-5) pp(2,4,5,6) bt rc ri eq by simp
qed

lemmas dd_eval = calculate_max_drawdown_def expanding_max_def nanmin_def nanmax_def nanvals_def
  idxmin_def idxmax_def first_index_def fmin_def fmax_def fsub_def fge_def Let_def
  inf_as_missing_def slice_to_def

lemma max_drawdown_scenario:
  "calculate_max_drawdown exact_lib idx [Fin 100, Fin 110, Fin 90, Fin 95, Fin 115] =
     Inr \<lparr>max_drawdown = Fin (- (2/11)), peak_date = 1, trough_date = 2, recovery_date = Some 4,
          peak_value = Fin 110, trough_value = Fin 90\<rparr>"
  by (cases idx) (simp_all add: dd_eval)

lemma max_drawdown_scenario_leading_nan:
  "calculate_max_drawdown exact_lib idx [NaN, Fin 100, Fin 110, Fin 90, Fin 95, Fin 115] =
     Inr \<lparr>max_drawdown = Fin (- (2/11)), peak_date = 2, trough_date = 3, recovery_date = Some 5,
          peak_value = Fin 110, trough_value = Fin 90\<rparr>"
  by (cases idx) (simp_all add: dd_eval)

text \<open>An infinite value is left out of the running maximum but not of the search for the
  peak.\<close>

lemma max_drawdown_scenario_infinite:
  "calculate_max_drawdown exact_lib Timestamps [Fin 100, PInf, Fin 50] =
     Inr \<lparr>max_drawdown = Fin (- (1/2)), peak_date = 1, trough_date = 2, recovery_date = None,
          peak_value = PInf, trough_value = Fin 50\<rparr>"
  by (simp add: dd_eval)

text \<open>
  The values 100, 110, 90, 95, 115: the drawdown is largest at the third row
  (\<open>(90 - 110) / 110\<close>), the peak is the second row and the recovery the fifth, on both
  kinds of index.
\<close>

theorem C5_max_drawdown_witness:
  "drawdown_ops exact_lib \<and>
   finite_or_missing [Fin 100, Fin 110, Fin 90, Fin 95, Fin 115] \<and>
   (\<exists>t<length [Fin 100, Fin 110, Fin 90, Fin 95, Fin 115].
      drawdown_at exact_lib [Fin 100, Fin 110, Fin 90, Fin 95, Fin 115] t \<noteq> NaN) \<and>
   calculate_max_drawdown exact_lib Timestamps [Fin 100, Fin 110, Fin 90, Fin 95, Fin 115] =
     Inr \<lparr>max_drawdown = Fin (- (2/11)), peak_date = 1, trough_date = 2, recovery_date = Some 4,
          peak_value = Fin 110, trough_value = Fin 90\<rparr> \<and>
   flt (Fin (- (2/11))) (Fin 0) \<and> (1::nat) < 2 \<and>
   calculate_max_drawdown exact_lib RangeIndex [Fin 100, Fin 110, Fin 90, Fin 95, Fin 115] =
     Inr \<lparr>max_drawdown = Fin (- (2/11)), peak_date = 1, trough_date = 2, recovery_date = Some 4,
          peak_value = Fin 110, trough_value = Fin 90\<rparr> \<and>
   recovery_ok [Fin 100, Fin 110, Fin 90, Fin 95, Fin 115] 2 1 (Some 4)"
proof -
  let ?pv = "[Fin 100, Fin 110, Fin 90, Fin 95, Fin 115]"
  have f: "finite_or_missing ?pv" by (simp add: finite_or_missing_def)
  have "drawdown_at exact_lib ?pv 0 \<noteq> NaN"
    by (simp add: drawdown_at_def nanmax_def nanvals_def fsub_def)
  then have h: "\<exists>t<length ?pv. drawdown_at exact_lib ?pv t \<noteq> NaN" by auto
  have e: "calculate_max_drawdown exact_lib Timestamps ?pv =
     Inr \<lparr>max_drawdown = Fin (- (2/11)), peak_date = 1, trough_date = 2, recovery_date = Some 4,
          peak_value = Fin 110, trough_value = Fin 90\<rparr>"
    by (simp add: dd_eval)
  from C5_max_drawdown [OF drawdown_ops_exact f h] e
  have r: "calculate_max_drawdown exact_lib RangeIndex ?pv =
     Inr \<lparr>max_drawdown = Fin (- (2/11)), peak_date = 1, trough_date = 2, recovery_date = Some 4,
          peak_value = Fin 110, trough_value = Fin 90\<rparr> \<and> recovery_ok ?pv 2 1 (Some 4)"
    by auto
  with drawdown_ops_exact f h e show ?thesis by simp
qed

text \<open>
  The claim C5 as stated fails on a column without a drawdown: for the values 100, 110 on a
  timestamp index the peak is the trough itself (the first row), not a row strictly before
  it, and on the default integer index the call raises, the slice before the trough being
  empty; and for the single value 100 no recovery date is recorded although the value at
  the trough is at least the peak value.
\<close>

theorem C5_counterexample:
  "calculate_max_drawdown exact_lib Timestamps [Fin 100, Fin 110] =
     Inr \<lparr>max_drawdown = Fin 0, peak_date = 0, trough_date = 0, recovery_date = Some 0,
          peak_value = Fin 100, trough_value = Fin 100\<rparr> \<and>
   calculate_max_drawdown exact_lib RangeIndex [Fin 100, Fin 110] =
     Inl (ValueError ''attempt to get argmax of an empty sequence'') \<and>
   calculate_max_drawdown exact_lib Timestamps [Fin 100] =
     Inr \<lparr>max_drawdown = Fin 0, peak_date = 0, trough_date = 0, recovery_date = None,
          peak_value = Fin 100, trough_value = Fin 100\<rparr> \<and>
   fge ([Fin 100] ! 0) (Fin 100)"
  by (simp add: dd_eval)

end
